theory Spec2Isabelle
  imports Complex_Main "HOL-Library.Product_Lexorder"
begin

section \<open>The campus map quiz: data model\<close>

text \<open>
  The source file \<^verbatim>\<open>script.js\<close> holds two variants of the same game. The first
  (lines 1 to 421) keeps its high scores in the global array \<^verbatim>\<open>highScores\<close>, cut to five
  entries; the second (lines 422 to 847) keeps them in \<^verbatim>\<open>localStorage\<close>, cut to ten.
  JavaScript numbers are modelled as \<open>int\<close> where the program only counts, and as \<open>real\<close>
  where it measures (clock readings, seconds, metres). Every number the program compares is
  finite, and on finite doubles the sign of \<open>a - b\<close> is the sign of the exact difference, so
  the comparisons of the model are the comparisons of the program.
\<close>

record latLng =
  lat :: real
  lng :: real

record location =
  name :: string
  code :: string
  grid :: string
  position :: latLng

definition LOCATIONS :: "location list" where
  "LOCATIONS =
    [ \<lparr>name = ''Sustainability Center'', code = ''SB'', grid = ''F4'',
       position = \<lparr>lat = 34.2408534, lng = - 118.5266263\<rparr>\<rparr>,
      \<lparr>name = ''Jacaranda Hall'', code = ''JD'', grid = ''E5'',
       position = \<lparr>lat = 34.2411177, lng = - 118.5289256\<rparr>\<rparr>,
      \<lparr>name = ''Live Oak Hall'', code = ''LO'', grid = ''G4'',
       position = \<lparr>lat = 34.238307, lng = - 118.5281976\<rparr>\<rparr>,
      \<lparr>name = ''Redwood Hall'', code = ''RE'', grid = ''F5'',
       position = \<lparr>lat = 34.2419438, lng = - 118.5262211\<rparr>\<rparr>,
      \<lparr>name = ''Sequoia Hall'', code = ''SQ'', grid = ''E4'',
       position = \<lparr>lat = 34.2405526, lng = - 118.5282433\<rparr>\<rparr> ]"

definition CORRECT_DISTANCE_METERS :: real where
  "CORRECT_DISTANCE_METERS = 50"

text \<open>
  One line of the leaderboard. \<open>timeSeconds\<close> is a number or \<^verbatim>\<open>null\<close>; the field
  \<^verbatim>\<open>total\<close> is called \<open>total_n\<close> here, since \<open>total\<close> is a constant of HOL.
\<close>

record scoreEntry =
  correct :: int
  total_n :: int
  timeSeconds :: "real option"
  timestamp :: int

section \<open>The ranking of scores\<close>

text \<open>
  The comparison function handed to \<^verbatim>\<open>Array.prototype.sort\<close>, the same text in both
  variants (lines 379 to 387 and 803 to 811). A negative result puts \<open>a\<close> before \<open>b\<close>.
\<close>

definition compareScores :: "scoreEntry \<Rightarrow> scoreEntry \<Rightarrow> real" where
  "compareScores a b =
    (if correct b \<noteq> correct a then of_int (correct b - correct a)
     else if timeSeconds a = None \<and> timeSeconds b = None then 0
     else if timeSeconds a = None then 1
     else if timeSeconds b = None then - 1
     else the (timeSeconds a) - the (timeSeconds b))"

text \<open>
  \<^verbatim>\<open>Array.prototype.sort\<close> with a comparison function: since ECMAScript 2019 the sort is
  stable. It is modelled as the stable insertion sort: an element goes in front of the first
  element that it does not rank behind, and the elements are inserted from the last to the
  first, so that of two equally ranked elements the earlier one stays in front.
\<close>

fun js_insert :: "('a \<Rightarrow> 'a \<Rightarrow> real) \<Rightarrow> 'a \<Rightarrow> 'a list \<Rightarrow> 'a list" where
  "js_insert cmp x [] = [x]"
| "js_insert cmp x (y # ys) =
    (if cmp x y \<le> 0 then x # y # ys else y # js_insert cmp x ys)"

definition js_sort :: "('a \<Rightarrow> 'a \<Rightarrow> real) \<Rightarrow> 'a list \<Rightarrow> 'a list" where
  "js_sort cmp xs = foldr (js_insert cmp) xs []"

text \<open>
  The object literal pushed by \<^verbatim>\<open>saveScore\<close>; \<open>now\<close> is the value of \<^verbatim>\<open>Date.now()\<close>. The
  test \<^verbatim>\<open>typeof timeSeconds === "number"\<close> keeps a number and turns everything else into
  \<^verbatim>\<open>null\<close>, which on \<open>real option\<close> changes nothing.
\<close>

definition newEntry :: "int \<Rightarrow> int \<Rightarrow> real option \<Rightarrow> int \<Rightarrow> scoreEntry" where
  "newEntry c t ts now = \<lparr>correct = c, total_n = t, timeSeconds = ts, timestamp = now\<rparr>"

text \<open>
  What \<^verbatim>\<open>saveScore\<close> of the first variant does to the array \<^verbatim>\<open>highScores\<close>
  (lines 367 to 390): push, sort, keep the first five.
\<close>

definition saveScore_list :: "scoreEntry list \<Rightarrow> int \<Rightarrow> int \<Rightarrow> real option \<Rightarrow> int \<Rightarrow> scoreEntry list" where
  "saveScore_list hs c t ts now =
     take 5 (js_sort compareScores (hs @ [newEntry c t ts now]))"

section \<open>Values of JavaScript that come out of \<^verbatim>\<open>JSON.parse\<close>\<close>

text \<open>
  \<open>JObj kvs\<close> is the object whose property \<open>k\<close> has the value \<open>map_of kvs k\<close>; the script reads
  properties by name only. A number in a JSON text is a finite number.
\<close>

datatype json =
    JNull
  | JBool bool
  | JNum real
  | JStr string
  | JArr "json list"
  | JObj "(string \<times> json) list"

text \<open>The object that \<^verbatim>\<open>saveScore\<close> pushes, and what \<^verbatim>\<open>JSON.stringify\<close> and \<^verbatim>\<open>JSON.parse\<close> make of it.\<close>

definition entryJson :: "scoreEntry \<Rightarrow> json" where
  "entryJson e =
     JObj [(''correct'', JNum (of_int (correct e))),
           (''total'', JNum (of_int (total_n e))),
           (''timeSeconds'', (case timeSeconds e of None \<Rightarrow> JNull | Some t \<Rightarrow> JNum t)),
           (''timestamp'', JNum (of_int (timestamp e)))]"

section \<open>The game session (first variant, lines 67 to 421)\<close>

text \<open>
  The global variables of the script and the text nodes it writes, as one record. The three
  arrays \<^verbatim>\<open>allTargetMarkers\<close>, \<^verbatim>\<open>allGuessMarkers\<close> and \<^verbatim>\<open>allHighlightCircles\<close> grow and are
  emptied together; \<open>markers\<close> holds what one round adds to them. \<open>timerInterval\<close> tells
  whether the variable holds the handle of a live interval (handles are positive numbers),
  \<open>timeouts\<close> is the browser's list of callbacks scheduled with \<^verbatim>\<open>setTimeout\<close>, each with its
  delay, and \<open>alerts\<close> lists the calls of \<^verbatim>\<open>alert\<close> by the values that make up the message.
  The timeout that stops a marker's bounce after two seconds changes no variable and is left out.
\<close>

datatype exn = TypeError | SyntaxError | StorageError

datatype callback = StartRound | EndGame

datatype prompt =
    GameStarted
  | Round int int string string
  | GetReady
  | GameOver
  | OtherPrompt

text \<open>
  What the element \<^verbatim>\<open>highScoreEl\<close> shows: a plain text, or the lines that
  \<^verbatim>\<open>renderScoreBoard\<close> builds. \<open>Board es\<close> is the HTML built from the lines of the entries
  \<open>es\<close>, \<open>Rows vs\<close> the HTML built from an array \<open>vs\<close> that is not an array of entries.
\<close>

datatype boardText = Text string | Board "scoreEntry list" | Rows "json list"

record game =
  currentIndex :: int
  correctCount :: int
  guessingEnabled :: bool
  timerInterval :: bool
  startTime :: "real option"
  highScores :: "scoreEntry list"
  markers :: "(location \<times> latLng \<times> bool) list"
  timeouts :: "(callback \<times> nat) list"
  alerts :: "(int \<times> int \<times> real option) list"
  startBtn_disabled :: bool
  promptEl :: prompt
  statusEl :: string
  scoreEl :: "(int \<times> int) option"
  timerEl :: "real option"
  highScoreEl :: boardText

text \<open>The two clocks a handler reads: \<^verbatim>\<open>performance.now()\<close> and \<^verbatim>\<open>Date.now()\<close>.\<close>

record clock =
  perfNow :: real
  dateNow :: int

text \<open>\<^verbatim>\<open>xs[i]\<close> in JavaScript: \<^verbatim>\<open>undefined\<close> outside the array.\<close>

definition lookup :: "'a list \<Rightarrow> int \<Rightarrow> 'a option" where
  "lookup xs i = (if 0 \<le> i \<and> i < int (length xs) then Some (xs ! nat i) else None)"

text \<open>\<^verbatim>\<open>!startTime\<close>: true of \<^verbatim>\<open>null\<close> and of the number zero.\<close>

definition falsy :: "real option \<Rightarrow> bool" where
  "falsy t = (t = None \<or> t = Some 0)"

definition updateScore :: "game \<Rightarrow> game" where
  "updateScore s = s\<lparr>scoreEl := Some (correctCount s, int (length LOCATIONS))\<rparr>"

definition clearRoundGraphics :: "game \<Rightarrow> game" where
  "clearRoundGraphics s = s\<lparr>markers := []\<rparr>"

definition showRoundMarkers :: "location \<Rightarrow> latLng \<Rightarrow> bool \<Rightarrow> game \<Rightarrow> game" where
  "showRoundMarkers loc guessLatLng isCorrect s =
     s\<lparr>markers := markers s @ [(loc, guessLatLng, isCorrect)]\<rparr>"

definition startTimer :: "real \<Rightarrow> game \<Rightarrow> game" where
  "startTimer now s = s\<lparr>startTime := Some now, timerInterval := True\<rparr>"

definition stopTimer :: "real \<Rightarrow> game \<Rightarrow> real option \<times> game" where
  "stopTimer now s =
     (if falsy (startTime s) then (None, s)
      else
        let s1 = (if timerInterval s then s\<lparr>timerInterval := False\<rparr> else s);
            elapsedMs = now - the (startTime s1);
            s2 = s1\<lparr>startTime := None\<rparr>;
            seconds = elapsedMs / 1000
        in (Some seconds, s2\<lparr>timerEl := Some seconds\<rparr>))"

definition updateTimerDisplay :: "real \<Rightarrow> game \<Rightarrow> game" where
  "updateTimerDisplay now s =
     (if falsy (startTime s) then s
      else s\<lparr>timerEl := Some ((now - the (startTime s)) / 1000)\<rparr>)"

text \<open>
  \<^verbatim>\<open>renderScoreBoard\<close> returns at once when the element \<^verbatim>\<open>highScoreEl\<close> is missing from the
  document; the element is taken to be there, as all the others are.
\<close>

definition renderScoreBoard :: "scoreEntry list \<Rightarrow> game \<Rightarrow> game" where
  "renderScoreBoard scores s =
     (if scores = [] then s\<lparr>highScoreEl := Text ''High Scores: none yet''\<rparr>
      else s\<lparr>highScoreEl := Board scores\<rparr>)"

definition saveScore :: "int \<Rightarrow> int \<Rightarrow> real option \<Rightarrow> int \<Rightarrow> game \<Rightarrow> game" where
  "saveScore c t ts now s =
     (let s1 = s\<lparr>highScores := saveScore_list (highScores s) c t ts now\<rparr>
      in renderScoreBoard (highScores s1) s1)"

definition endGame :: "clock \<Rightarrow> game \<Rightarrow> game" where
  "endGame clk s =
     (let s1 = s\<lparr>guessingEnabled := False, startBtn_disabled := False\<rparr>;
          (totalTime, s2) = stopTimer (perfNow clk) s1;
          s3 = s2\<lparr>alerts := alerts s2 @ [(correctCount s2, int (length LOCATIONS), totalTime)]\<rparr>;
          s4 = saveScore (correctCount s3) (int (length LOCATIONS)) totalTime (dateNow clk) s3
      in s4\<lparr>promptEl := GameOver\<rparr>)"

text \<open>
  A handler that can throw returns the exception, if any, and the variables as they are when
  it leaves: an exception does not undo the assignments made before it.
\<close>

definition startRound :: "clock \<Rightarrow> game \<Rightarrow> exn option \<times> game" where
  "startRound clk s =
     (if currentIndex s \<ge> int (length LOCATIONS) then (None, endGame clk s)
      else
        let s1 = s\<lparr>guessingEnabled := True\<rparr>
        in case lookup LOCATIONS (currentIndex s) of
             None \<Rightarrow> (Some TypeError, s1)
           | Some loc \<Rightarrow>
               (None, s1\<lparr>promptEl :=
                  Round (currentIndex s + 1) (int (length LOCATIONS)) (name loc) (grid loc)\<rparr>))"

text \<open>
  \<open>computeDistanceBetween\<close> stands for the function of that name in
  \<^verbatim>\<open>google.maps.geometry.spherical\<close>, which is not part of the script.
\<close>

definition handleGuess :: "(latLng \<Rightarrow> latLng \<Rightarrow> real) \<Rightarrow> latLng \<Rightarrow> game \<Rightarrow> exn option \<times> game" where
  "handleGuess computeDistanceBetween guess s =
     (let s1 = s\<lparr>guessingEnabled := False\<rparr>
      in case lookup LOCATIONS (currentIndex s1) of
           None \<Rightarrow> (Some TypeError, s1)
         | Some loc \<Rightarrow>
             let distance = computeDistanceBetween guess (position loc);
                 isCorrect = (distance \<le> CORRECT_DISTANCE_METERS);
                 s2 = (if isCorrect
                       then s1\<lparr>correctCount := correctCount s1 + 1, statusEl := ''Correct!''\<rparr>
                       else s1\<lparr>statusEl := ''Incorrect. The correct area is highlighted in red.''\<rparr>);
                 s3 = updateScore s2;
                 s4 = showRoundMarkers loc guess isCorrect s3;
                 s5 = s4\<lparr>currentIndex := currentIndex s4 + 1\<rparr>
             in if currentIndex s5 < int (length LOCATIONS)
                then (None, s5\<lparr>promptEl := GetReady,
                                timeouts := timeouts s5 @ [(StartRound, 1500)]\<rparr>)
                else (None, s5\<lparr>timeouts := timeouts s5 @ [(EndGame, 1500)]\<rparr>))"

text \<open>\<open>t0\<close> is the clock reading of \<^verbatim>\<open>startTimer\<close>, \<open>clk\<close> the readings after it.\<close>

definition startGame :: "real \<Rightarrow> clock \<Rightarrow> game \<Rightarrow> exn option \<times> game" where
  "startGame t0 clk s =
     (let s1 = s\<lparr>currentIndex := 0, correctCount := 0\<rparr>;
          s2 = updateScore s1;
          s3 = clearRoundGraphics s2;
          s4 = s3\<lparr>statusEl := [], promptEl := GameStarted, startBtn_disabled := True\<rparr>;
          s5 = startTimer t0 s4
      in startRound clk s5)"

text \<open>The listener that \<^verbatim>\<open>initMap\<close> registers for a double click on the map.\<close>

definition onDblClick :: "(latLng \<Rightarrow> latLng \<Rightarrow> real) \<Rightarrow> latLng \<Rightarrow> game \<Rightarrow> exn option \<times> game" where
  "onDblClick computeDistanceBetween guess s =
     (if \<not> guessingEnabled s then (None, s) else handleGuess computeDistanceBetween guess s)"

definition runCallback :: "clock \<Rightarrow> callback \<Rightarrow> game \<Rightarrow> exn option \<times> game" where
  "runCallback clk cb s =
     (case cb of StartRound \<Rightarrow> startRound clk s | EndGame \<Rightarrow> (None, endGame clk s))"

subsection \<open>Events\<close>

text \<open>
  What can happen to a session: a click on the start button, a double click on the map, a
  scheduled callback coming due (the \<open>i\<close>-th of the pending ones), a tick of the interval.
  An exception that leaves a handler is reported by the browser and the page goes on with the
  variables as they are. The start button is disabled while a game runs; \<open>step\<close> lets
  \<^verbatim>\<open>startGame\<close> run in any state, which only adds behaviours.
\<close>

datatype event =
    ClickStart real clock
  | DblClick latLng
  | Timeout nat clock
  | Tick real

definition dropNth :: "nat \<Rightarrow> 'a list \<Rightarrow> 'a list" where
  "dropNth i xs = take i xs @ drop (Suc i) xs"

definition step :: "(latLng \<Rightarrow> latLng \<Rightarrow> real) \<Rightarrow> event \<Rightarrow> game \<Rightarrow> game" where
  "step computeDistanceBetween ev s =
     (case ev of
        ClickStart t0 clk \<Rightarrow> snd (startGame t0 clk s)
      | DblClick guess \<Rightarrow> snd (onDblClick computeDistanceBetween guess s)
      | Timeout i clk \<Rightarrow>
          (if i < length (timeouts s)
           then snd (runCallback clk (fst (timeouts s ! i)) (s\<lparr>timeouts := dropNth i (timeouts s)\<rparr>))
           else s)
      | Tick now \<Rightarrow> (if timerInterval s then updateTimerDisplay now s else s))"

definition run :: "(latLng \<Rightarrow> latLng \<Rightarrow> real) \<Rightarrow> event list \<Rightarrow> game \<Rightarrow> game" where
  "run computeDistanceBetween evs s = fold (step computeDistanceBetween) evs s"

text \<open>The variables as their declarations leave them (lines 76 to 95); the text nodes are free.\<close>

definition freshPage :: "game \<Rightarrow> bool" where
  "freshPage s \<longleftrightarrow>
     currentIndex s = 0 \<and> correctCount s = 0 \<and> \<not> guessingEnabled s \<and> \<not> timerInterval s \<and>
     startTime s = None \<and> highScores s = [] \<and> markers s = [] \<and> timeouts s = [] \<and> alerts s = []"

text \<open>
  A page as \<^verbatim>\<open>initMap\<close> leaves it: the variables as declared, the leaderboard as
  \<^verbatim>\<open>loadScoresFromStorage\<close> renders the empty array. The first content of the other text nodes
  is in the HTML document, not in the script; they are taken as empty.
\<close>

definition loadedPage :: game where
  "loadedPage =
     \<lparr>currentIndex = 0, correctCount = 0, guessingEnabled = False, timerInterval = False,
      startTime = None, highScores = [], markers = [], timeouts = [], alerts = [],
      startBtn_disabled = False, promptEl = OtherPrompt, statusEl = [], scoreEl = None,
      timerEl = None, highScoreEl = Text ''High Scores: none yet''\<rparr>"

section \<open>The stored leaderboard (second variant, lines 764 to 841)\<close>

text \<open>
  The game functions of the second variant are those of the first, word for word, but for
  \<^verbatim>\<open>endGame\<close> (lines 640 to 655), which there does not call \<^verbatim>\<open>saveScore\<close>. Its
  leaderboard lives in \<^verbatim>\<open>localStorage\<close> under one key, as text.

  The text under the key is taken by what \<^verbatim>\<open>JSON.parse\<close> makes of it: the empty string, a
  string that does not parse, or a string that parses to a value. \<^verbatim>\<open>JSON.stringify\<close> of a
  parsed value parses back to a value with the same properties.
\<close>

datatype storedText = EmptyText | Unparseable | Stringified json

text \<open>Whether the calls of \<^verbatim>\<open>localStorage\<close> throw, which the environment decides at each call.\<close>

record backend =
  getItemThrows :: bool
  setItemThrows :: bool

record page =
  stored :: "storedText option"
  boardEl :: boardText

definition getItem :: "backend \<Rightarrow> page \<Rightarrow> exn + storedText option" where
  "getItem be p = (if getItemThrows be then Inl StorageError else Inr (stored p))"

definition setItem :: "backend \<Rightarrow> storedText \<Rightarrow> page \<Rightarrow> exn + page" where
  "setItem be v p = (if setItemThrows be then Inl StorageError else Inr (p\<lparr>stored := Some v\<rparr>))"

definition JSON_parse :: "storedText \<Rightarrow> exn + json" where
  "JSON_parse t =
     (case t of EmptyText \<Rightarrow> Inl SyntaxError | Unparseable \<Rightarrow> Inl SyntaxError | Stringified j \<Rightarrow> Inr j)"

text \<open>\<^verbatim>\<open>JSON.stringify\<close> of an array, and of an array of entries.\<close>

definition JSON_stringify_array :: "json list \<Rightarrow> storedText" where
  "JSON_stringify_array scores = Stringified (JArr scores)"

definition JSON_stringify :: "scoreEntry list \<Rightarrow> storedText" where
  "JSON_stringify scores = JSON_stringify_array (map entryJson scores)"

text \<open>\<^verbatim>\<open>!saved\<close>: true of \<^verbatim>\<open>null\<close> and of the empty string.\<close>

definition notSaved :: "storedText option \<Rightarrow> bool" where
  "notSaved saved = (saved = None \<or> saved = Some EmptyText)"

subsection \<open>The operations of the language on parsed values\<close>

text \<open>
  Numbers as the language has them. The sort takes a comparison result that is not a number
  for zero.
\<close>

datatype jsnum = NaN | NegInf | Fin real | PosInf

fun jsminus :: "jsnum \<Rightarrow> jsnum \<Rightarrow> jsnum" where
  "jsminus NaN y = NaN"
| "jsminus x NaN = NaN"
| "jsminus (Fin a) (Fin b) = Fin (a - b)"
| "jsminus (Fin a) PosInf = NegInf"
| "jsminus (Fin a) NegInf = PosInf"
| "jsminus PosInf PosInf = NaN"
| "jsminus PosInf y = PosInf"
| "jsminus NegInf NegInf = NaN"
| "jsminus NegInf y = NegInf"

definition signOf :: "jsnum \<Rightarrow> real" where
  "signOf v = (case v of NaN \<Rightarrow> 0 | NegInf \<Rightarrow> - 1 | Fin r \<Rightarrow> r | PosInf \<Rightarrow> 1)"

text \<open>
  What the script leaves to the language and to the browser, where a parsed value is not of
  the kind that \<^verbatim>\<open>saveScore\<close> writes: the conversion of a string, an array or an object to
  a number, which may throw; whether the conversion of an array or an object to a string throws;
  and what \<^verbatim>\<open>Array.prototype.sort\<close> does with an array on which the comparison function
  throws or is no ranking, where the language lets the engine choose.
\<close>

record runtime =
  toNumberOf :: "json \<Rightarrow> exn + jsnum"
  toStringThrows :: "json \<Rightarrow> bool"
  engineSort :: "json list \<Rightarrow> exn + json list"

text \<open>
  \<^verbatim>\<open>v.k\<close> for a parsed value \<open>v\<close> and one of the names that the script reads, none of which
  is a property of a prototype: a TypeError on \<^verbatim>\<open>null\<close>, \<^verbatim>\<open>undefined\<close> (here \<open>None\<close>) where
  the value has no such property.
\<close>

definition getProp :: "json \<Rightarrow> string \<Rightarrow> exn + json option" where
  "getProp v k =
     (case v of JNull \<Rightarrow> Inl TypeError | JObj kvs \<Rightarrow> Inr (map_of kvs k) | _ \<Rightarrow> Inr None)"

text \<open>
  \<^verbatim>\<open>x !== y\<close> for two property values of two different elements: arrays and objects are
  compared by identity and are never the same.
\<close>

definition strictNeq :: "json option \<Rightarrow> json option \<Rightarrow> bool" where
  "strictNeq x y =
     (case (x, y) of
        (None, None) \<Rightarrow> False
      | (Some JNull, Some JNull) \<Rightarrow> False
      | (Some (JBool a), Some (JBool b)) \<Rightarrow> a \<noteq> b
      | (Some (JNum a), Some (JNum b)) \<Rightarrow> a \<noteq> b
      | (Some (JStr a), Some (JStr b)) \<Rightarrow> a \<noteq> b
      | _ \<Rightarrow> True)"

text \<open>\<^verbatim>\<open>x == null\<close>: true of \<^verbatim>\<open>null\<close> and of \<^verbatim>\<open>undefined\<close>.\<close>

definition nullish :: "json option \<Rightarrow> bool" where
  "nullish x = (x = None \<or> x = Some JNull)"

definition ToNumber :: "runtime \<Rightarrow> json option \<Rightarrow> exn + jsnum" where
  "ToNumber rt x =
     (case x of
        None \<Rightarrow> Inr NaN
      | Some JNull \<Rightarrow> Inr (Fin 0)
      | Some (JBool b) \<Rightarrow> Inr (Fin (if b then 1 else 0))
      | Some (JNum r) \<Rightarrow> Inr (Fin r)
      | Some v \<Rightarrow> toNumberOf rt v)"

definition minus_js :: "runtime \<Rightarrow> json option \<Rightarrow> json option \<Rightarrow> exn + jsnum" where
  "minus_js rt x y =
     (case ToNumber rt x of
        Inl e \<Rightarrow> Inl e
      | Inr nx \<Rightarrow> (case ToNumber rt y of Inl e \<Rightarrow> Inl e | Inr ny \<Rightarrow> Inr (jsminus nx ny)))"

text \<open>
  The comparison function of lines 803 to 811 on parsed values. On two entries it is
  \<open>compareScores\<close>, see \<open>compareScores_json_entries\<close> below.
\<close>

definition compareScores_json :: "runtime \<Rightarrow> json \<Rightarrow> json \<Rightarrow> exn + jsnum" where
  "compareScores_json rt a b =
     (case getProp b ''correct'' of
        Inl e \<Rightarrow> Inl e
      | Inr bc \<Rightarrow>
          (case getProp a ''correct'' of
             Inl e \<Rightarrow> Inl e
           | Inr ac \<Rightarrow>
               if strictNeq bc ac then minus_js rt bc ac
               else
                 (case getProp a ''timeSeconds'' of
                    Inl e \<Rightarrow> Inl e
                  | Inr ta \<Rightarrow>
                      (case getProp b ''timeSeconds'' of
                         Inl e \<Rightarrow> Inl e
                       | Inr tb \<Rightarrow>
                           if nullish ta \<and> nullish tb then Inr (Fin 0)
                           else if nullish ta then Inr (Fin 1)
                           else if nullish tb then Inr (Fin (- 1))
                           else minus_js rt ta tb))))"

definition compareSign :: "runtime \<Rightarrow> json \<Rightarrow> json \<Rightarrow> real" where
  "compareSign rt a b = (case compareScores_json rt a b of Inl e \<Rightarrow> 0 | Inr v \<Rightarrow> signOf v)"

text \<open>
  \<^verbatim>\<open>scores.sort(...)\<close> on parsed values. The work is fixed in two cases. Where the comparison
  function throws on no two elements and its signs rank the elements (a strict rank one way is
  the reverse rank the other way, and the ranking is transitive), every stable sort returns the
  same array, the one of \<open>js_sort\<close>. Where an element is \<^verbatim>\<open>null\<close> and there is another
  element, the comparison function is called on it, since a sort compares every element with
  some other, and throws. Everything else is the engine's choice.
\<close>

definition comparesCleanly :: "runtime \<Rightarrow> json list \<Rightarrow> bool" where
  "comparesCleanly rt xs =
     list_all (\<lambda>a. list_all (\<lambda>b. isl (compareScores_json rt a b) = False) xs) xs"

definition ranksElements :: "runtime \<Rightarrow> json list \<Rightarrow> bool" where
  "ranksElements rt xs =
     list_all (\<lambda>a. list_all (\<lambda>b.
         (compareSign rt a b < 0) = (0 < compareSign rt b a) \<and>
         list_all (\<lambda>c. \<not> (compareSign rt a b \<le> 0 \<and> compareSign rt b c \<le> 0) \<or>
                        compareSign rt a c \<le> 0) xs) xs) xs"

definition sortScores :: "runtime \<Rightarrow> json list \<Rightarrow> exn + json list" where
  "sortScores rt xs =
     (if 2 \<le> length xs \<and> JNull \<in> set xs then Inl TypeError
      else if comparesCleanly rt xs \<and> ranksElements rt xs then Inr (js_sort (compareSign rt) xs)
      else engineSort rt xs)"

subsection \<open>Rendering\<close>

text \<open>
  Whether the template of line 833 throws on an element: it reads \<^verbatim>\<open>s.correct\<close> and
  \<^verbatim>\<open>s.total\<close> and converts both to strings. The conversion of a primitive value to a string
  does not throw.
\<close>

definition stringThrows :: "runtime \<Rightarrow> json option \<Rightarrow> bool" where
  "stringThrows rt x =
     (case x of
        Some (JArr vs) \<Rightarrow> toStringThrows rt (JArr vs)
      | Some (JObj kvs) \<Rightarrow> toStringThrows rt (JObj kvs)
      | _ \<Rightarrow> False)"

definition rowThrows :: "runtime \<Rightarrow> json \<Rightarrow> bool" where
  "rowThrows rt s =
     (case getProp s ''correct'' of
        Inl e \<Rightarrow> True
      | Inr cv \<Rightarrow>
          stringThrows rt cv \<or>
          (case getProp s ''total'' of Inl e \<Rightarrow> True | Inr tv \<Rightarrow> stringThrows rt tv))"

text \<open>
  Reading an entry back from a parsed value: \<open>asEntry v\<close> is the entry whose object \<open>v\<close> is,
  if it is one.
\<close>

definition propOf :: "json \<Rightarrow> string \<Rightarrow> json option" where
  "propOf v k = (case v of JObj kvs \<Rightarrow> map_of kvs k | _ \<Rightarrow> None)"

definition intOf :: "json option \<Rightarrow> int" where
  "intOf x = (case x of Some (JNum r) \<Rightarrow> \<lfloor>r\<rfloor> | _ \<Rightarrow> 0)"

definition readEntry :: "json \<Rightarrow> scoreEntry" where
  "readEntry v =
     \<lparr>correct = intOf (propOf v ''correct''),
      total_n = intOf (propOf v ''total''),
      timeSeconds = (case propOf v ''timeSeconds'' of Some (JNum r) \<Rightarrow> Some r | _ \<Rightarrow> None),
      timestamp = intOf (propOf v ''timestamp'')\<rparr>"

definition asEntry :: "json \<Rightarrow> scoreEntry option" where
  "asEntry v = (if v = entryJson (readEntry v) then Some (readEntry v) else None)"

fun decodeEntries :: "json list \<Rightarrow> scoreEntry list option" where
  "decodeEntries [] = Some []"
| "decodeEntries (v # vs) =
     (case asEntry v of
        None \<Rightarrow> None
      | Some e \<Rightarrow> (case decodeEntries vs of None \<Rightarrow> None | Some es \<Rightarrow> Some (e # es)))"

text \<open>
  \<^verbatim>\<open>renderScoreBoard\<close> (lines 823 to 841). The lines are collected first and written to the
  element after the loop, so that an exception in the loop leaves the element as it was.
\<close>

definition renderScoreBoard_stored :: "runtime \<Rightarrow> json list \<Rightarrow> page \<Rightarrow> exn + page" where
  "renderScoreBoard_stored rt scores p =
     (if scores = [] then Inr (p\<lparr>boardEl := Text ''High Scores: none yet''\<rparr>)
      else if list_ex (rowThrows rt) scores then Inl TypeError
      else Inr (p\<lparr>boardEl :=
                  (case decodeEntries scores of Some es \<Rightarrow> Board es | None \<Rightarrow> Rows scores)\<rparr>))"

subsection \<open>Loading and saving\<close>

text \<open>
  \<^verbatim>\<open>try { ... } catch { ... }\<close>: a body that throws hands the exception over together with
  the page as it is at that moment, and the handler goes on from that page.
\<close>

definition try_catch :: "(exn \<times> 'a) + 'a \<Rightarrow> ('a \<Rightarrow> exn + 'a) \<Rightarrow> exn + 'a" where
  "try_catch body handler = (case body of Inl (e, s) \<Rightarrow> handler s | Inr r \<Rightarrow> Inr r)"

definition loadScoresFromStorage_stored :: "runtime \<Rightarrow> backend \<Rightarrow> page \<Rightarrow> exn + page" where
  "loadScoresFromStorage_stored rt be p =
     try_catch
       (case getItem be p of
          Inl e \<Rightarrow> Inl (e, p)
        | Inr saved \<Rightarrow>
            if notSaved saved then Inr (p\<lparr>boardEl := Text ''High Scores: N/A''\<rparr>)
            else
              (case JSON_parse (the saved) of
                 Inl e \<Rightarrow> Inl (e, p)
               | Inr scores \<Rightarrow>
                   (case scores of
                      JArr vs \<Rightarrow>
                        if length vs = 0 then Inr (p\<lparr>boardEl := Text ''High Scores: N/A''\<rparr>)
                        else (case renderScoreBoard_stored rt vs p of
                                Inl e \<Rightarrow> Inl (e, p)
                              | Inr p1 \<Rightarrow> Inr p1)
                    | _ \<Rightarrow> Inr (p\<lparr>boardEl := Text ''High Scores: N/A''\<rparr>))))
       (\<lambda>s. Inr (s\<lparr>boardEl := Text ''High Scores: Unavailable''\<rparr>))"

text \<open>
  \<^verbatim>\<open>saveScore\<close> (lines 784 to 821). When \<^verbatim>\<open>renderScoreBoard\<close> throws, the array has
  already been written to the storage.
\<close>

definition saveScore_stored :: "runtime \<Rightarrow> backend \<Rightarrow> int \<Rightarrow> int \<Rightarrow> real option \<Rightarrow> int \<Rightarrow> page \<Rightarrow> exn + page" where
  "saveScore_stored rt be c t ts now p =
     try_catch
       (case getItem be p of
          Inl e \<Rightarrow> Inl (e, p)
        | Inr saved \<Rightarrow>
            (case (if notSaved saved then Inr []
                   else (case JSON_parse (the saved) of
                           Inl e \<Rightarrow> Inl e
                         | Inr parsed \<Rightarrow>
                             (case parsed of JArr vs \<Rightarrow> Inr vs | _ \<Rightarrow> Inr []))) of
               Inl e \<Rightarrow> Inl (e, p)
             | Inr scores \<Rightarrow>
                 let scores1 = scores @ [entryJson (newEntry c t ts now)]
                 in (case sortScores rt scores1 of
                       Inl e \<Rightarrow> Inl (e, p)
                     | Inr scores2 \<Rightarrow>
                         let scores3 = take 10 scores2
                         in (case setItem be (JSON_stringify_array scores3) p of
                               Inl e \<Rightarrow> Inl (e, p)
                             | Inr p1 \<Rightarrow>
                                 (case renderScoreBoard_stored rt scores3 p1 of
                                    Inl e \<Rightarrow> Inl (e, p1)
                                  | Inr p2 \<Rightarrow> Inr p2)))))
       (\<lambda>s. Inr s)"

section \<open>The Scoreboard Engine of the specification\<close>

text \<open>
  The specification's \<^verbatim>\<open>record(correct, total, elapsedSecondsOrNone)\<close>: the new entry is
  inserted, the leaderboard is sorted by the ranking order and then truncated to its configured
  capacity. This definition follows the specification, with the capacity as a parameter; the
  two variants of the script are compared with it.
\<close>

definition spec_record :: "nat \<Rightarrow> scoreEntry list \<Rightarrow> int \<Rightarrow> int \<Rightarrow> real option \<Rightarrow> int \<Rightarrow> scoreEntry list" where
  "spec_record capacity board c t ts now =
     take capacity (js_sort compareScores (board @ [newEntry c t ts now]))"

text \<open>A sequence of recordings, each \<open>(correct, total, timeSeconds, timestamp)\<close>, one after the other.\<close>

definition entryOf :: "int \<times> int \<times> real option \<times> int \<Rightarrow> scoreEntry" where
  "entryOf r = (case r of (c, t, ts, now) \<Rightarrow> newEntry c t ts now)"

fun spec_records :: "nat \<Rightarrow> scoreEntry list \<Rightarrow> (int \<times> int \<times> real option \<times> int) list \<Rightarrow> scoreEntry list" where
  "spec_records capacity board [] = board"
| "spec_records capacity board ((c, t, ts, now) # rs) =
     spec_records capacity (spec_record capacity board c t ts now) rs"

fun saveScores_list :: "scoreEntry list \<Rightarrow> (int \<times> int \<times> real option \<times> int) list \<Rightarrow> scoreEntry list" where
  "saveScores_list hs [] = hs"
| "saveScores_list hs ((c, t, ts, now) # rs) = saveScores_list (saveScore_list hs c t ts now) rs"

fun saveScores_stored :: "runtime \<Rightarrow> backend \<Rightarrow> page \<Rightarrow> (int \<times> int \<times> real option \<times> int) list \<Rightarrow> exn + page" where
  "saveScores_stored rt be p [] = Inr p"
| "saveScores_stored rt be p ((c, t, ts, now) # rs) =
     (case saveScore_stored rt be c t ts now p of
        Inl e \<Rightarrow> Inl e
      | Inr p1 \<Rightarrow> saveScores_stored rt be p1 rs)"

text \<open>
  The leaderboard of entries that \<^verbatim>\<open>saveScore\<close> reads out of the storage, where what it
  reads is one: nothing stored, an empty string and a value that is not an array all count as
  the empty leaderboard, as they do in \<^verbatim>\<open>saveScore\<close>.
\<close>

definition storedBoard :: "page \<Rightarrow> scoreEntry list option" where
  "storedBoard p =
     (case stored p of
        None \<Rightarrow> Some []
      | Some EmptyText \<Rightarrow> Some []
      | Some Unparseable \<Rightarrow> None
      | Some (Stringified (JArr vs)) \<Rightarrow> decodeEntries vs
      | Some (Stringified _) \<Rightarrow> Some [])"

text \<open>A runtime for the examples: it turns strings, arrays and objects into no number.\<close>

definition plainRuntime :: runtime where
  "plainRuntime =
     \<lparr>toNumberOf = (\<lambda>v. Inr NaN), toStringThrows = (\<lambda>v. False), engineSort = (\<lambda>vs. Inr vs)\<rparr>"

section \<open>Auxiliary notions of the proofs\<close>

text \<open>A key into a linear order that ranks as \<open>compareScores\<close> does.\<close>

definition rankKey :: "scoreEntry \<Rightarrow> int \<times> nat \<times> real" where
  "rankKey a = (- correct a, (case timeSeconds a of None \<Rightarrow> (1, 0) | Some t \<Rightarrow> (0, t)))"

text \<open>Insertion behind the last element that does not rank behind \<open>x\<close>.\<close>

fun insertLast :: "('a \<Rightarrow> 'k::linorder) \<Rightarrow> 'a \<Rightarrow> 'a list \<Rightarrow> 'a list" where
  "insertLast f x [] = [x]"
| "insertLast f x (y # ys) = (if f y \<le> f x then y # insertLast f x ys else x # y # ys)"

text \<open>The leaderboard is in ranking order: no entry ranks behind a later one.\<close>

definition ranked :: "scoreEntry list \<Rightarrow> bool" where
  "ranked es = sorted_wrt (\<lambda>a b. compareScores a b \<le> 0) es"

text \<open>What holds of the session variables at every moment.\<close>

definition sessionInv :: "game \<Rightarrow> bool" where
  "sessionInv s \<longleftrightarrow>
     0 \<le> correctCount s \<and> correctCount s \<le> currentIndex s \<and>
     currentIndex s \<le> int (length LOCATIONS) \<and>
     (guessingEnabled s \<longrightarrow> currentIndex s < int (length LOCATIONS))"

section \<open>Properties of the ranking\<close>

lemma compareScores_le_iff: "compareScores a b \<le> 0 \<longleftrightarrow> rankKey a \<le> rankKey b"
  by (auto simp: compareScores_def rankKey_def split: option.splits)

lemma compareScores_less_iff: "compareScores a b < 0 \<longleftrightarrow> rankKey a < rankKey b"
  by (auto simp: compareScores_def rankKey_def split: option.splits)

lemma compareScores_eq_iff: "compareScores a b = 0 \<longleftrightarrow> rankKey a = rankKey b"
  by (auto simp: compareScores_def rankKey_def split: option.splits)

lemma js_insert_compareScores: "js_insert compareScores x ys = insort_key rankKey x ys"
  by (induction ys) (simp_all add: compareScores_le_iff)

lemma js_sort_compareScores: "js_sort compareScores xs = sort_key rankKey xs"
  by (induction xs) (simp_all add: js_sort_def js_insert_compareScores)

subsection \<open>Sorting after a push\<close>

lemma insort_insertLast_commute:
  "insort_key f a (insertLast f x ys) = insertLast f x (insort_key f a ys)"
  by (induction ys) auto

lemma sort_key_snoc: "sort_key f (xs @ [x]) = insertLast f x (sort_key f xs)"
  by (induction xs) (simp_all add: insort_insertLast_commute)

lemma take_insertLast_take:
  "take n (insertLast f x (take n ys)) = take n (insertLast f x ys)"
proof (induction ys arbitrary: n)
  case Nil
  then show ?case by simp
next
  case (Cons y ys)
  show ?case
  proof (cases n)
    case 0
    then show ?thesis by simp
  next
    case (Suc m)
    with Cons show ?thesis by (cases m) auto
  qed
qed

subsection \<open>The sorted leaderboard\<close>

lemma ranked_iff_sorted: "ranked es = sorted (map rankKey es)"
  by (simp add: ranked_def sorted_map compareScores_le_iff)

lemma ranked_js_sort: "ranked (js_sort compareScores es)"
  by (simp add: js_sort_compareScores ranked_iff_sorted)

lemma ranked_take: "ranked es \<Longrightarrow> ranked (take n es)"
  unfolding ranked_def by (rule sorted_wrt_take)

lemma js_sort_stable:
  "filter (\<lambda>y. compareScores y x = 0) (js_sort compareScores es) = filter (\<lambda>y. compareScores y x = 0) es"
  by (simp add: js_sort_compareScores compareScores_eq_iff sort_key_stable)

lemma js_sort_ranked_id: "ranked es \<Longrightarrow> js_sort compareScores es = es"
  by (simp add: js_sort_compareScores ranked_iff_sorted sort_key_id_if_sorted)

lemma js_sort_snoc:
  "js_sort compareScores (es @ [e]) = insertLast rankKey e (js_sort compareScores es)"
  by (simp add: js_sort_compareScores sort_key_snoc)

lemma take_sort_take_snoc:
  "take n (js_sort compareScores (take n (js_sort compareScores es) @ [e])) =
   take n (js_sort compareScores (es @ [e]))"
proof -
  have "ranked (take n (js_sort compareScores es))"
    by (rule ranked_take) (rule ranked_js_sort)
  then have "js_sort compareScores (take n (js_sort compareScores es)) = take n (js_sort compareScores es)"
    by (rule js_sort_ranked_id)
  then show ?thesis
    by (simp add: js_sort_snoc take_insertLast_take)
qed

lemma spec_records_from_empty:
  "spec_records n (take n (js_sort compareScores es)) rs =
   take n (js_sort compareScores (es @ map entryOf rs))"
proof (induction rs arbitrary: es)
  case Nil
  then show ?case by simp
next
  case (Cons r rs)
  obtain c t ts now where r: "r = (c, t, ts, now)" by (cases r) auto
  show ?case
    using Cons.IH [of "es @ [newEntry c t ts now]"]
    by (simp add: r spec_record_def take_sort_take_snoc entryOf_def)
qed

subsection \<open>The script's leaderboard and the specification's\<close>

lemma saveScore_list_spec: "saveScore_list hs c t ts now = spec_record 5 hs c t ts now"
  by (simp add: saveScore_list_def spec_record_def)

lemma saveScores_list_spec: "saveScores_list hs rs = spec_records 5 hs rs"
  by (induction hs rs rule: saveScores_list.induct) (simp_all add: saveScore_list_spec)

lemma length_js_sort: "length (js_sort compareScores es) = length es"
  by (simp add: js_sort_compareScores)

lemma length_spec_record: "length (spec_record n hs c t ts now) = min n (Suc (length hs))"
  by (simp add: spec_record_def length_js_sort min.commute)

lemma ranked_spec_record: "ranked (spec_record n hs c t ts now)"
  unfolding spec_record_def by (rule ranked_take) (rule ranked_js_sort)

lemma spec_record_nonempty: "0 < n \<Longrightarrow> spec_record n hs c t ts now \<noteq> []"
  using length_spec_record [of n hs c t ts now] by (cases n) auto

lemma filter_take_prefix:
  "filter P (take n ys) = take (length (filter P (take n ys))) (filter P ys)"
proof -
  have "filter P ys = filter P (take n ys) @ filter P (drop n ys)"
    by (metis append_take_drop_id filter_append)
  then show ?thesis by simp
qed

subsection \<open>The comparison function as an order\<close>

lemma compareScores_total: "compareScores a b \<le> 0 \<or> compareScores b a \<le> 0"
  by (simp add: compareScores_le_iff linear)

lemma compareScores_trans:
  "compareScores a b \<le> 0 \<Longrightarrow> compareScores b d \<le> 0 \<Longrightarrow> compareScores a d \<le> 0"
  by (simp add: compareScores_le_iff)

lemma compareScores_flip: "compareScores a b < 0 \<longleftrightarrow> 0 < compareScores b a"
  by (auto simp: compareScores_def)

lemma compareScores_before:
  "compareScores a b < 0 \<longleftrightarrow>
     correct b < correct a \<or>
     (correct a = correct b \<and>
       ((\<exists>ta tb. timeSeconds a = Some ta \<and> timeSeconds b = Some tb \<and> ta < tb) \<or>
        (timeSeconds a \<noteq> None \<and> timeSeconds b = None)))"
  by (auto simp: compareScores_def)

lemma compareScores_tie:
  "compareScores a b = 0 \<longleftrightarrow> correct a = correct b \<and> timeSeconds a = timeSeconds b"
  by (auto simp: compareScores_def)

lemma example_order:
  "map (\<lambda>e. (correct e, timeSeconds e))
     (saveScores_list [] [(3, 5, Some 10, n1), (5, 5, Some 20, n2), (5, 5, Some 15, n3)]) =
   [(5, Some 15), (5, Some 20), (3, Some 10)]"
  by (simp add: saveScore_list_def js_sort_def compareScores_def newEntry_def)

lemma saveScores_list_best:
  "saveScores_list [] rs = take 5 (js_sort compareScores (map entryOf rs))"
  using spec_records_from_empty [of 5 "[]" rs]
  by (simp add: saveScores_list_spec js_sort_def)

lemma take_spec_records:
  "take 5 (spec_records 10 [] rs) = spec_records 5 [] rs"
  using spec_records_from_empty [of 10 "[]" rs] spec_records_from_empty [of 5 "[]" rs]
  by (simp add: js_sort_def)

subsection \<open>Entries as parsed values\<close>

lemma readEntry_entryJson: "readEntry (entryJson e) = e"
  by (simp add: readEntry_def entryJson_def propOf_def intOf_def split: option.splits)

lemma asEntry_entryJson: "asEntry (entryJson e) = Some e"
  by (simp add: asEntry_def readEntry_entryJson)

lemma asEntry_Some: "asEntry v = Some e \<Longrightarrow> v = entryJson e"
  by (auto simp: asEntry_def split: if_splits)

lemma decodeEntries_map: "decodeEntries (map entryJson es) = Some es"
  by (induction es) (simp_all add: asEntry_entryJson)

lemma decodeEntries_Some: "decodeEntries vs = Some es \<Longrightarrow> vs = map entryJson es"
  by (induction vs arbitrary: es) (auto split: option.splits dest: asEntry_Some)

lemma compareScores_json_entries:
  "compareScores_json rt (entryJson a) (entryJson b) = Inr (Fin (compareScores a b))"
  by (simp add: compareScores_json_def getProp_def entryJson_def strictNeq_def minus_js_def
      ToNumber_def nullish_def compareScores_def split: option.splits)

lemma compareSign_entries: "compareSign rt (entryJson a) (entryJson b) = compareScores a b"
  by (simp add: compareSign_def compareScores_json_entries signOf_def)

lemma js_insert_map:
  "js_insert (compareSign rt) (entryJson x) (map entryJson ys) =
   map entryJson (js_insert compareScores x ys)"
  by (induction ys) (simp_all add: compareSign_entries)

lemma js_sort_map:
  "js_sort (compareSign rt) (map entryJson es) = map entryJson (js_sort compareScores es)"
  by (induction es) (simp_all add: js_sort_def js_insert_map)

lemma entryJson_not_null: "JNull \<notin> set (map entryJson es)"
  by (auto simp: entryJson_def)

lemma comparesCleanly_entries: "comparesCleanly rt (map entryJson es)"
  by (simp add: comparesCleanly_def list_all_iff compareScores_json_entries)

lemma ranksElements_entries: "ranksElements rt (map entryJson es)"
  using compareScores_trans
  by (auto simp: ranksElements_def list_all_iff compareSign_entries compareScores_flip)

lemma sortScores_entries:
  "sortScores rt (map entryJson es) = Inr (map entryJson (js_sort compareScores es))"
  using entryJson_not_null [of es]
  by (simp add: sortScores_def comparesCleanly_entries ranksElements_entries js_sort_map
      del: set_map)

lemma rowThrows_entry: "\<not> rowThrows rt (entryJson e)"
  by (simp add: rowThrows_def getProp_def entryJson_def stringThrows_def)

lemma renderScoreBoard_stored_entries:
  "renderScoreBoard_stored rt (map entryJson es) p =
     Inr (p\<lparr>boardEl := (if es = [] then Text ''High Scores: none yet'' else Board es)\<rparr>)"
  by (simp add: renderScoreBoard_stored_def list_ex_iff rowThrows_entry decodeEntries_map)

subsection \<open>The stored leaderboard, case by case\<close>

lemma saveScore_stored_read_throws:
  "getItemThrows be \<Longrightarrow> saveScore_stored rt be c t ts now p = Inr p"
  by (simp add: saveScore_stored_def getItem_def try_catch_def)

lemma saveScore_stored_unparseable:
  "stored p = Some Unparseable \<Longrightarrow> saveScore_stored rt be c t ts now p = Inr p"
  by (simp add: saveScore_stored_def getItem_def try_catch_def notSaved_def JSON_parse_def)

text \<open>Every exception before the call of \<^verbatim>\<open>setItem\<close>, and the one of \<^verbatim>\<open>setItem\<close>, leaves the page.\<close>

lemma saveScore_stored_write_throws:
  "setItemThrows be \<Longrightarrow> saveScore_stored rt be c t ts now p = Inr p"
  by (simp add: saveScore_stored_def getItem_def setItem_def try_catch_def Let_def
      split: sum.splits)

lemma sortScores_null:
  assumes "vs \<noteq> []" and "JNull \<in> set vs"
  shows "sortScores rt (vs @ [v]) = Inl TypeError"
proof -
  from assms(1) have "2 \<le> length (vs @ [v])" by (cases vs) simp_all
  moreover from assms(2) have "JNull \<in> set (vs @ [v])" by simp
  ultimately show ?thesis by (simp only: sortScores_def simp_thms if_True)
qed

lemma saveScore_stored_null:
  assumes "stored p = Some (Stringified (JArr vs))" and "JNull \<in> set vs"
  shows "saveScore_stored rt be c t ts now p = Inr p"
proof -
  from assms(2) have ne: "vs \<noteq> []" by auto
  show ?thesis
    using assms(1)
    by (simp add: saveScore_stored_def getItem_def try_catch_def notSaved_def JSON_parse_def
        Let_def sortScores_null [OF ne assms(2)])
qed

lemma storedBoard_scores:
  assumes "storedBoard p = Some hs"
  shows "(if notSaved (stored p) then Inr []
      else (case JSON_parse (the (stored p)) of Inl e \<Rightarrow> Inl e
            | Inr parsed \<Rightarrow> (case parsed of JArr vs \<Rightarrow> Inr vs | _ \<Rightarrow> Inr []))) =
     (Inr (map entryJson hs) :: exn + json list)"
proof (cases "stored p")
  case None
  with assms show ?thesis by (simp add: storedBoard_def notSaved_def)
next
  case (Some tx)
  show ?thesis
  proof (cases tx)
    case EmptyText
    with Some assms show ?thesis by (simp add: storedBoard_def notSaved_def)
  next
    case Unparseable
    with Some assms show ?thesis by (simp add: storedBoard_def)
  next
    case (Stringified j)
    with Some assms show ?thesis
      by (cases j) (auto simp: storedBoard_def notSaved_def JSON_parse_def dest: decodeEntries_Some)
  qed
qed

lemma saveScore_stored_works:
  assumes "\<not> getItemThrows be" "\<not> setItemThrows be" "storedBoard p = Some hs"
  shows "saveScore_stored rt be c t ts now p =
     Inr (p\<lparr>stored := Some (JSON_stringify (spec_record 10 hs c t ts now)),
            boardEl := Board (spec_record 10 hs c t ts now)\<rparr>)"
proof -
  have ne: "spec_record 10 hs c t ts now \<noteq> []"
    by (rule spec_record_nonempty) simp
  have srt: "sortScores rt (map entryJson hs @ [entryJson (newEntry c t ts now)]) =
      Inr (map entryJson (js_sort compareScores (hs @ [newEntry c t ts now])))"
    using sortScores_entries [of rt "hs @ [newEntry c t ts now]"] by simp
  have rnd: "renderScoreBoard_stored rt (map entryJson (spec_record 10 hs c t ts now)) q =
      Inr (q\<lparr>boardEl := Board (spec_record 10 hs c t ts now)\<rparr>)" for q
    using ne by (simp add: renderScoreBoard_stored_entries)
  show ?thesis
    unfolding saveScore_stored_def getItem_def
    using assms(1,2)
    by (simp add: storedBoard_scores [OF assms(3)] srt Let_def setItem_def take_map
        JSON_stringify_def rnd try_catch_def flip: spec_record_def)
qed

lemma storedBoard_written:
  "storedBoard (p\<lparr>stored := Some (JSON_stringify es), boardEl := v\<rparr>) = Some es"
  by (simp add: storedBoard_def JSON_stringify_def JSON_stringify_array_def decodeEntries_map)

lemma saveScores_stored_works:
  "\<not> getItemThrows be \<Longrightarrow> \<not> setItemThrows be \<Longrightarrow> storedBoard p = Some hs \<Longrightarrow>
   \<exists>p'. saveScores_stored rt be p rs = Inr p' \<and> storedBoard p' = Some (spec_records 10 hs rs)"
proof (induction rs arbitrary: p hs)
  case Nil
  then show ?case by simp
next
  case (Cons r rs)
  obtain c t ts now where r: "r = (c, t, ts, now)" by (cases r) auto
  let ?p1 = "p\<lparr>stored := Some (JSON_stringify (spec_record 10 hs c t ts now)),
               boardEl := Board (spec_record 10 hs c t ts now)\<rparr>"
  have step: "saveScore_stored rt be c t ts now p = Inr ?p1"
    using Cons.prems by (rule saveScore_stored_works)
  have "storedBoard ?p1 = Some (spec_record 10 hs c t ts now)"
    by (rule storedBoard_written)
  from Cons.IH [OF Cons.prems(1,2) this] show ?case
    by (simp add: r step)
qed

text \<open>No exception leaves \<^verbatim>\<open>saveScore\<close>, and what it writes has at most ten elements.\<close>

lemma renderScoreBoard_stored_stored:
  "renderScoreBoard_stored rt vs q = Inr q' \<Longrightarrow> stored q' = stored q"
  by (auto simp: renderScoreBoard_stored_def split: if_splits)

lemma saveScore_stored_total:
  "\<exists>p'. saveScore_stored rt be c t ts now p = Inr p' \<and>
     (p' = p \<or> (\<exists>vs. stored p' = Some (JSON_stringify_array vs) \<and> length vs \<le> 10))"
proof -
  define r :: "exn + json list" where
    "r = (if notSaved (stored p) then Inr []
          else (case JSON_parse (the (stored p)) of Inl e \<Rightarrow> Inl e
                | Inr parsed \<Rightarrow> (case parsed of JArr vs \<Rightarrow> Inr vs | _ \<Rightarrow> Inr [])))"
  have written: "\<exists>vs. stored q' = Some (JSON_stringify_array vs) \<and> length vs \<le> 10"
    if "renderScoreBoard_stored rt (take 10 xs) (p\<lparr>stored := Some (JSON_stringify_array (take 10 xs))\<rparr>) = Inr q'"
    for xs q'
    using renderScoreBoard_stored_stored [OF that] by auto
  show ?thesis
    unfolding saveScore_stored_def getItem_def setItem_def try_catch_def Let_def r_def [symmetric]
    by (auto split: sum.splits dest: written)
qed

subsection \<open>Loading, case by case\<close>

lemma rowThrows_null: "JNull \<in> set vs \<Longrightarrow> list_ex (rowThrows rt) vs"
  by (auto simp: list_ex_iff rowThrows_def getProp_def intro!: bexI [of _ JNull])

lemma loadScores_read_fails:
  "getItemThrows be \<or> stored p = Some Unparseable \<Longrightarrow>
   loadScoresFromStorage_stored rt be p = Inr (p\<lparr>boardEl := Text ''High Scores: Unavailable''\<rparr>)"
  by (auto simp: loadScoresFromStorage_stored_def getItem_def try_catch_def notSaved_def
      JSON_parse_def)

lemma loadScores_array:
  "\<not> getItemThrows be \<Longrightarrow> stored p = Some (Stringified (JArr vs)) \<Longrightarrow>
   loadScoresFromStorage_stored rt be p =
     Inr (p\<lparr>boardEl :=
       (if vs = [] then Text ''High Scores: N/A''
        else if list_ex (rowThrows rt) vs then Text ''High Scores: Unavailable''
        else (case decodeEntries vs of Some es \<Rightarrow> Board es | None \<Rightarrow> Rows vs))\<rparr>)"
  by (simp add: loadScoresFromStorage_stored_def getItem_def try_catch_def notSaved_def
      JSON_parse_def renderScoreBoard_stored_def)

lemma loadScores_no_array:
  "\<not> getItemThrows be \<Longrightarrow>
   stored p = None \<or> stored p = Some EmptyText \<or>
   (\<exists>j. stored p = Some (Stringified j) \<and> (\<forall>vs. j \<noteq> JArr vs)) \<Longrightarrow>
   loadScoresFromStorage_stored rt be p = Inr (p\<lparr>boardEl := Text ''High Scores: N/A''\<rparr>)"
  by (auto simp: loadScoresFromStorage_stored_def getItem_def try_catch_def notSaved_def
      JSON_parse_def split: json.splits)

lemma loadScores_total:
  "loadScoresFromStorage_stored rt be p =
     Inr (p\<lparr>boardEl :=
       (if getItemThrows be then Text ''High Scores: Unavailable''
        else case stored p of
               None \<Rightarrow> Text ''High Scores: N/A''
             | Some EmptyText \<Rightarrow> Text ''High Scores: N/A''
             | Some Unparseable \<Rightarrow> Text ''High Scores: Unavailable''
             | Some (Stringified (JArr vs)) \<Rightarrow>
                 if vs = [] then Text ''High Scores: N/A''
                 else if list_ex (rowThrows rt) vs then Text ''High Scores: Unavailable''
                 else (case decodeEntries vs of Some es \<Rightarrow> Board es | None \<Rightarrow> Rows vs)
             | Some (Stringified _) \<Rightarrow> Text ''High Scores: N/A'')\<rparr>)"
proof (cases "getItemThrows be")
  case True
  then show ?thesis by (simp add: loadScores_read_fails)
next
  case False
  show ?thesis
  proof (cases "stored p")
    case None
    with False show ?thesis by (simp add: loadScores_no_array)
  next
    case (Some tx)
    show ?thesis
    proof (cases tx)
      case EmptyText
      with False Some show ?thesis by (simp add: loadScores_no_array)
    next
      case Unparseable
      with False Some show ?thesis by (simp add: loadScores_read_fails)
    next
      case (Stringified j)
      with False Some show ?thesis
        by (cases j) (simp_all add: loadScores_no_array loadScores_array)
    qed
  qed
qed

subsection \<open>An array of numbers in the storage\<close>

text \<open>
  With the text \<^verbatim>\<open>[1,2]\<close> in the storage, the comparison function finds no property on the
  numbers and ranks everything equal; the new entry is appended, the array is written back and
  its three elements are rendered.
\<close>

lemma stored_numbers_example:
  "saveScore_stored plainRuntime \<lparr>getItemThrows = False, setItemThrows = False\<rparr> 3 5 (Some 10) 1
     \<lparr>stored = Some (Stringified (JArr [JNum 1, JNum 2])), boardEl = Text []\<rparr> =
   Inr \<lparr>stored = Some (Stringified (JArr [JNum 1, JNum 2, entryJson (newEntry 3 5 (Some 10) 1)])),
        boardEl = Rows [JNum 1, JNum 2, entryJson (newEntry 3 5 (Some 10) 1)]\<rparr>"
  by (simp add: saveScore_stored_def getItem_def setItem_def try_catch_def notSaved_def
      JSON_parse_def sortScores_def comparesCleanly_def ranksElements_def compareSign_def
      compareScores_json_def getProp_def strictNeq_def nullish_def minus_js_def ToNumber_def
      signOf_def js_sort_def JSON_stringify_array_def renderScoreBoard_stored_def rowThrows_def
      stringThrows_def asEntry_def readEntry_def propOf_def intOf_def entryJson_def newEntry_def
      plainRuntime_def Let_def)

subsection \<open>The array \<^verbatim>\<open>[null]\<close> in the storage\<close>

lemma stored_null_example:
  "loadScoresFromStorage_stored plainRuntime \<lparr>getItemThrows = False, setItemThrows = False\<rparr>
     \<lparr>stored = Some (Stringified (JArr [JNull])), boardEl = Text []\<rparr> =
     Inr \<lparr>stored = Some (Stringified (JArr [JNull])), boardEl = Text ''High Scores: Unavailable''\<rparr> \<and>
   saveScore_stored plainRuntime \<lparr>getItemThrows = False, setItemThrows = False\<rparr> 3 5 (Some 10) 1
     \<lparr>stored = Some (Stringified (JArr [JNull])), boardEl = Text []\<rparr> =
     Inr \<lparr>stored = Some (Stringified (JArr [JNull])), boardEl = Text []\<rparr>"
  by (simp add: loadScores_array rowThrows_def getProp_def saveScore_stored_null)

section \<open>The claims about the leaderboard\<close>

text \<open>
  Claim C1. The comparison function of \<^verbatim>\<open>saveScore\<close> ranks \<open>a\<close> strictly before \<open>b\<close>
  exactly when \<open>a\<close> has more correct answers, or as many and a shorter recorded time, or as
  many and a recorded time where \<open>b\<close> has none; it ranks them equal exactly when they agree
  on the correct answers and on the time, two entries without a time among them. The ranking is
  total and transitive, and a strict rank one way is the reverse strict rank the other way. The
  leaderboard that \<^verbatim>\<open>saveScore\<close> leaves is in ranking order in both variants, the entries
  of equal rank that it keeps stand in the order of their insertion, and the entries 3/10, 5/20
  and 5/15, saved in this order, come out as 5/15, 5/20, 3/10.
\<close>

theorem ranking_order:
  "(compareScores a b < 0 \<longleftrightarrow>
      correct b < correct a \<or>
      (correct a = correct b \<and>
        ((\<exists>ta tb. timeSeconds a = Some ta \<and> timeSeconds b = Some tb \<and> ta < tb) \<or>
         (timeSeconds a \<noteq> None \<and> timeSeconds b = None)))) \<and>
   (compareScores a b = 0 \<longleftrightarrow> correct a = correct b \<and> timeSeconds a = timeSeconds b) \<and>
   (compareScores a b < 0 \<longleftrightarrow> 0 < compareScores b a) \<and>
   (compareScores a b \<le> 0 \<or> compareScores b a \<le> 0) \<and>
   (compareScores a b \<le> 0 \<and> compareScores b d \<le> 0 \<longrightarrow> compareScores a d \<le> 0) \<and>
   ranked (saveScore_list hs c t ts now) \<and>
   filter (\<lambda>y. compareScores y a = 0) (saveScore_list hs c t ts now) =
     take (length (filter (\<lambda>y. compareScores y a = 0) (saveScore_list hs c t ts now)))
       (filter (\<lambda>y. compareScores y a = 0) (hs @ [newEntry c t ts now])) \<and>
   (\<not> getItemThrows be \<and> \<not> setItemThrows be \<and> storedBoard p = Some hs \<longrightarrow>
      (\<exists>p'. saveScore_stored rt be c t ts now p = Inr p' \<and>
            storedBoard p' = Some (take 10 (js_sort compareScores (hs @ [newEntry c t ts now]))) \<and>
            ranked (take 10 (js_sort compareScores (hs @ [newEntry c t ts now]))))) \<and>
   map (\<lambda>e. (correct e, timeSeconds e))
     (saveScores_list [] [(3, 5, Some 10, n1), (5, 5, Some 20, n2), (5, 5, Some 15, n3)]) =
   [(5, Some 15), (5, Some 20), (3, Some 10)]"
proof -
  have stable: "filter (\<lambda>y. compareScores y a = 0) (saveScore_list hs c t ts now) =
     take (length (filter (\<lambda>y. compareScores y a = 0) (saveScore_list hs c t ts now)))
       (filter (\<lambda>y. compareScores y a = 0) (hs @ [newEntry c t ts now]))"
    unfolding saveScore_list_def
    using filter_take_prefix [of "\<lambda>y. compareScores y a = 0" 5
        "js_sort compareScores (hs @ [newEntry c t ts now])"]
    by (simp only: js_sort_stable)
  have sorted5: "ranked (saveScore_list hs c t ts now)"
    by (simp only: saveScore_list_spec ranked_spec_record)
  have stored: "\<not> getItemThrows be \<and> \<not> setItemThrows be \<and> storedBoard p = Some hs \<longrightarrow>
      (\<exists>p'. saveScore_stored rt be c t ts now p = Inr p' \<and>
            storedBoard p' = Some (take 10 (js_sort compareScores (hs @ [newEntry c t ts now]))) \<and>
            ranked (take 10 (js_sort compareScores (hs @ [newEntry c t ts now]))))"
    using ranked_spec_record [of 10 hs c t ts now]
    by (auto simp: saveScore_stored_works storedBoard_written simp flip: spec_record_def)
  have trans: "compareScores a b \<le> 0 \<and> compareScores b d \<le> 0 \<longrightarrow> compareScores a d \<le> 0"
    using compareScores_trans by blast
  from compareScores_before [of a b] compareScores_tie [of a b] compareScores_flip [of a b]
    compareScores_total [of a b] trans sorted5 stable stored example_order [of n1 n2 n3]
  show ?thesis by (intro conjI)
qed

theorem ranking_order_witness:
  "compareScores (newEntry 5 5 (Some 15) 3) (newEntry 5 5 (Some 20) 2) \<le> 0 \<and>
   compareScores (newEntry 5 5 (Some 20) 2) (newEntry 5 5 None 1) \<le> 0 \<and>
   compareScores (newEntry 5 5 (Some 15) 3) (newEntry 5 5 None 1) \<le> 0 \<and>
   \<not> getItemThrows \<lparr>getItemThrows = False, setItemThrows = False\<rparr> \<and>
   \<not> setItemThrows \<lparr>getItemThrows = False, setItemThrows = False\<rparr> \<and>
   storedBoard \<lparr>stored = None, boardEl = Text []\<rparr> = Some [] \<and>
   (\<exists>p'. saveScore_stored plainRuntime \<lparr>getItemThrows = False, setItemThrows = False\<rparr> 3 5 (Some 10) 1
            \<lparr>stored = None, boardEl = Text []\<rparr> = Inr p' \<and>
         storedBoard p' = Some (take 10 (js_sort compareScores ([] @ [newEntry 3 5 (Some 10) 1]))))"
proof -
  let ?be = "\<lparr>getItemThrows = False, setItemThrows = False\<rparr>"
  let ?p = "\<lparr>stored = None, boardEl = Text []\<rparr>"
  note r = ranking_order [of "newEntry 5 5 (Some 15) 3" "newEntry 5 5 (Some 20) 2"
      "newEntry 5 5 None 1" "[]" 3 5 "Some 10" 1 ?be ?p plainRuntime 0 0 0]
  have h1: "compareScores (newEntry 5 5 (Some 15) 3) (newEntry 5 5 (Some 20) 2) \<le> 0"
    by (simp add: compareScores_def newEntry_def)
  have h2: "compareScores (newEntry 5 5 (Some 20) 2) (newEntry 5 5 None 1) \<le> 0"
    by (simp add: compareScores_def newEntry_def)
  have h3: "\<not> getItemThrows ?be \<and> \<not> setItemThrows ?be \<and> storedBoard ?p = Some []"
    by (simp add: storedBoard_def)
  from r have "compareScores (newEntry 5 5 (Some 15) 3) (newEntry 5 5 (Some 20) 2) \<le> 0 \<and>
      compareScores (newEntry 5 5 (Some 20) 2) (newEntry 5 5 None 1) \<le> 0 \<longrightarrow>
      compareScores (newEntry 5 5 (Some 15) 3) (newEntry 5 5 None 1) \<le> 0"
    by (elim conjE)
  with h1 h2 have c1: "compareScores (newEntry 5 5 (Some 15) 3) (newEntry 5 5 None 1) \<le> 0"
    by (elim impE) (rule conjI)
  from r have "\<not> getItemThrows ?be \<and> \<not> setItemThrows ?be \<and> storedBoard ?p = Some [] \<longrightarrow>
      (\<exists>p'. saveScore_stored plainRuntime ?be 3 5 (Some 10) 1 ?p = Inr p' \<and>
            storedBoard p' = Some (take 10 (js_sort compareScores ([] @ [newEntry 3 5 (Some 10) 1]))) \<and>
            ranked (take 10 (js_sort compareScores ([] @ [newEntry 3 5 (Some 10) 1]))))"
    by (elim conjE)
  with h3 have c2: "\<exists>p'. saveScore_stored plainRuntime ?be 3 5 (Some 10) 1 ?p = Inr p' \<and>
      storedBoard p' = Some (take 10 (js_sort compareScores ([] @ [newEntry 3 5 (Some 10) 1])))"
    by blast
  from h1 h2 c1 h3 c2 show ?thesis by (intro conjI) (elim conjE; assumption)+
qed

text \<open>
  Claim C10. When \<^verbatim>\<open>localStorage.setItem\<close> throws in \<^verbatim>\<open>saveScore\<close> of the second
  variant, the call returns normally and the page is as before: the stored text and the displayed
  leaderboard are unchanged, and the new entry is neither stored nor shown.
\<close>

theorem write_failure_drops_entry:
  "setItemThrows be \<Longrightarrow> saveScore_stored rt be c t ts now p = Inr p"
  by (rule saveScore_stored_write_throws)

theorem write_failure_drops_entry_witness:
  "setItemThrows \<lparr>getItemThrows = False, setItemThrows = True\<rparr> \<and>
   saveScore_stored plainRuntime \<lparr>getItemThrows = False, setItemThrows = True\<rparr> 4 5 (Some 31) 7
     \<lparr>stored = Some (JSON_stringify [newEntry 3 5 (Some 40) 2]), boardEl = Board [newEntry 3 5 (Some 40) 2]\<rparr> =
   Inr \<lparr>stored = Some (JSON_stringify [newEntry 3 5 (Some 40) 2]), boardEl = Board [newEntry 3 5 (Some 40) 2]\<rparr>"
proof -
  have h: "setItemThrows \<lparr>getItemThrows = False, setItemThrows = True\<rparr>" by simp
  show ?thesis
    using h write_failure_drops_entry [OF h, of plainRuntime 4 5 "Some 31" 7
        "\<lparr>stored = Some (JSON_stringify [newEntry 3 5 (Some 40) 2]), boardEl = Board [newEntry 3 5 (Some 40) 2]\<rparr>"]
    by simp
qed

text \<open>
  Claim C9. Both variants record as the specification's Scoreboard Engine does, the first with
  capacity five on the array in memory, the second with capacity ten on the leaderboard of
  entries read from a storage that does not throw; this holds for one recording and for any
  sequence of recordings. For the same recordings from an empty leaderboard, the leaderboard
  in memory is the first five entries of the stored one.
\<close>

theorem variants_same_core:
  "saveScore_list hs c t ts now = spec_record 5 hs c t ts now \<and>
   saveScores_list hs rs = spec_records 5 hs rs \<and>
   (\<not> getItemThrows be \<and> \<not> setItemThrows be \<and> storedBoard p = Some hs \<longrightarrow>
      (\<exists>p'. saveScore_stored rt be c t ts now p = Inr p' \<and>
            storedBoard p' = Some (spec_record 10 hs c t ts now) \<and>
            boardEl p' = Board (spec_record 10 hs c t ts now)) \<and>
      (\<exists>p'. saveScores_stored rt be p rs = Inr p' \<and>
            storedBoard p' = Some (spec_records 10 hs rs) \<and>
            (hs = [] \<longrightarrow> take 5 (the (storedBoard p')) = saveScores_list [] rs)))"
proof -
  have a: "saveScore_list hs c t ts now = spec_record 5 hs c t ts now"
    by (rule saveScore_list_spec)
  have b: "saveScores_list hs rs = spec_records 5 hs rs"
    by (rule saveScores_list_spec)
  have c: "\<not> getItemThrows be \<and> \<not> setItemThrows be \<and> storedBoard p = Some hs \<longrightarrow>
      (\<exists>p'. saveScore_stored rt be c t ts now p = Inr p' \<and>
            storedBoard p' = Some (spec_record 10 hs c t ts now) \<and>
            boardEl p' = Board (spec_record 10 hs c t ts now)) \<and>
      (\<exists>p'. saveScores_stored rt be p rs = Inr p' \<and>
            storedBoard p' = Some (spec_records 10 hs rs) \<and>
            (hs = [] \<longrightarrow> take 5 (the (storedBoard p')) = saveScores_list [] rs))"
  proof (intro impI, elim conjE)
    assume h: "\<not> getItemThrows be" "\<not> setItemThrows be" "storedBoard p = Some hs"
    have one: "\<exists>p'. saveScore_stored rt be c t ts now p = Inr p' \<and>
            storedBoard p' = Some (spec_record 10 hs c t ts now) \<and>
            boardEl p' = Board (spec_record 10 hs c t ts now)"
      by (simp add: saveScore_stored_works [OF h] storedBoard_written)
    from saveScores_stored_works [OF h, of rt rs]
    obtain p' where p': "saveScores_stored rt be p rs = Inr p'"
      and sb: "storedBoard p' = Some (spec_records 10 hs rs)" by blast
    have "hs = [] \<longrightarrow> take 5 (the (storedBoard p')) = saveScores_list [] rs"
      by (simp add: sb take_spec_records saveScores_list_spec)
    with p' sb have many: "\<exists>p'. saveScores_stored rt be p rs = Inr p' \<and>
            storedBoard p' = Some (spec_records 10 hs rs) \<and>
            (hs = [] \<longrightarrow> take 5 (the (storedBoard p')) = saveScores_list [] rs)"
      by blast
    from one many show "(\<exists>p'. saveScore_stored rt be c t ts now p = Inr p' \<and>
            storedBoard p' = Some (spec_record 10 hs c t ts now) \<and>
            boardEl p' = Board (spec_record 10 hs c t ts now)) \<and>
      (\<exists>p'. saveScores_stored rt be p rs = Inr p' \<and>
            storedBoard p' = Some (spec_records 10 hs rs) \<and>
            (hs = [] \<longrightarrow> take 5 (the (storedBoard p')) = saveScores_list [] rs))"
      by (rule conjI)
  qed
  from a b c show ?thesis by (intro conjI)
qed

theorem variants_same_core_witness:
  "\<not> getItemThrows \<lparr>getItemThrows = False, setItemThrows = False\<rparr> \<and>
   \<not> setItemThrows \<lparr>getItemThrows = False, setItemThrows = False\<rparr> \<and>
   storedBoard \<lparr>stored = None, boardEl = Text []\<rparr> = Some [] \<and>
   (\<exists>p'. saveScores_stored plainRuntime \<lparr>getItemThrows = False, setItemThrows = False\<rparr>
            \<lparr>stored = None, boardEl = Text []\<rparr>
            [(3, 5, Some 10, 1), (5, 5, Some 20, 2), (5, 5, Some 15, 3)] = Inr p' \<and>
         take 5 (the (storedBoard p')) =
           saveScores_list [] [(3, 5, Some 10, 1), (5, 5, Some 20, 2), (5, 5, Some 15, 3)])"
proof -
  let ?be = "\<lparr>getItemThrows = False, setItemThrows = False\<rparr>"
  let ?p = "\<lparr>stored = None, boardEl = Text []\<rparr>"
  let ?rs = "[(3, 5, Some 10, 1), (5, 5, Some 20, 2), (5, 5, Some 15, 3)] :: (int \<times> int \<times> real option \<times> int) list"
  note r = variants_same_core [of "[]" 0 5 None 0 ?rs ?be ?p plainRuntime]
  have h: "\<not> getItemThrows ?be \<and> \<not> setItemThrows ?be \<and> storedBoard ?p = Some []"
    by (simp add: storedBoard_def)
  from r have "\<not> getItemThrows ?be \<and> \<not> setItemThrows ?be \<and> storedBoard ?p = Some [] \<longrightarrow>
      (\<exists>p'. saveScore_stored plainRuntime ?be 0 5 None 0 ?p = Inr p' \<and>
            storedBoard p' = Some (spec_record 10 [] 0 5 None 0) \<and>
            boardEl p' = Board (spec_record 10 [] 0 5 None 0)) \<and>
      (\<exists>p'. saveScores_stored plainRuntime ?be ?p ?rs = Inr p' \<and>
            storedBoard p' = Some (spec_records 10 [] ?rs) \<and>
            ([] = ([] :: scoreEntry list) \<longrightarrow> take 5 (the (storedBoard p')) = saveScores_list [] ?rs))"
    by (elim conjE)
  with h have "\<exists>p'. saveScores_stored plainRuntime ?be ?p ?rs = Inr p' \<and>
      take 5 (the (storedBoard p')) = saveScores_list [] ?rs"
    by blast
  with h show ?thesis by (intro conjI) (elim conjE; assumption)+
qed

text \<open>
  Claim C3. After \<^verbatim>\<open>saveScore\<close> the leaderboard is no longer than its capacity, five
  entries in memory and ten in the storage, and it is in ranking order: in memory whatever the
  array held before; in the storage whenever the call writes at all (otherwise the page is as it
  was), with at most ten elements whatever was stored, and in ranking order where the storage
  held a leaderboard of entries. Recordings made one after the other from an empty leaderboard
  leave the first five, or ten, of all recorded entries in ranking order: the best ones, and
  exactly five (ten) of them after eight (thirteen) recordings.
\<close>

theorem leaderboard_bounded_sorted:
  "length (saveScore_list hs c t ts now) \<le> 5 \<and>
   ranked (saveScore_list hs c t ts now) \<and>
   saveScores_list [] rs = take 5 (js_sort compareScores (map entryOf rs)) \<and>
   length (saveScores_list [] rs) = min 5 (length rs) \<and>
   (length rs = 5 + 3 \<longrightarrow> length (saveScores_list [] rs) = 5) \<and>
   (\<exists>p'. saveScore_stored rt be c t ts now p = Inr p' \<and>
      (p' = p \<or> (\<exists>vs. stored p' = Some (JSON_stringify_array vs) \<and> length vs \<le> 10))) \<and>
   (storedBoard p \<noteq> None \<or> stored p = Some Unparseable \<longrightarrow>
      (\<exists>p'. saveScore_stored rt be c t ts now p = Inr p' \<and>
         (p' = p \<or>
          (\<exists>es. stored p' = Some (JSON_stringify es) \<and> boardEl p' = Board es \<and>
                length es \<le> 10 \<and> ranked es)))) \<and>
   (\<not> getItemThrows be \<and> \<not> setItemThrows be \<and> storedBoard p = Some [] \<longrightarrow>
      (\<exists>p'. saveScores_stored rt be p qs = Inr p' \<and>
            storedBoard p' = Some (take 10 (js_sort compareScores (map entryOf qs))) \<and>
            (length qs = 10 + 3 \<longrightarrow> length (the (storedBoard p')) = 10)))"
proof -
  have a: "length (saveScore_list hs c t ts now) \<le> 5"
    by (simp add: saveScore_list_def)
  have b: "ranked (saveScore_list hs c t ts now)"
    by (simp only: saveScore_list_spec ranked_spec_record)
  have c: "saveScores_list [] rs = take 5 (js_sort compareScores (map entryOf rs))"
    by (rule saveScores_list_best)
  have d: "length (saveScores_list [] rs) = min 5 (length rs)"
    by (simp add: c length_js_sort min.commute)
  have e: "length rs = 5 + 3 \<longrightarrow> length (saveScores_list [] rs) = 5"
    by (simp add: d)
  have f0: "\<exists>p'. saveScore_stored rt be c t ts now p = Inr p' \<and>
      (p' = p \<or> (\<exists>vs. stored p' = Some (JSON_stringify_array vs) \<and> length vs \<le> 10))"
    by (rule saveScore_stored_total)
  have f: "storedBoard p \<noteq> None \<or> stored p = Some Unparseable \<longrightarrow>
      (\<exists>p'. saveScore_stored rt be c t ts now p = Inr p' \<and>
         (p' = p \<or>
          (\<exists>es. stored p' = Some (JSON_stringify es) \<and> boardEl p' = Board es \<and>
                length es \<le> 10 \<and> ranked es)))"
  proof
    assume h: "storedBoard p \<noteq> None \<or> stored p = Some Unparseable"
    show "\<exists>p'. saveScore_stored rt be c t ts now p = Inr p' \<and>
         (p' = p \<or>
          (\<exists>es. stored p' = Some (JSON_stringify es) \<and> boardEl p' = Board es \<and>
                length es \<le> 10 \<and> ranked es))"
    proof (cases "getItemThrows be \<or> setItemThrows be \<or> stored p = Some Unparseable")
      case True
      then have "saveScore_stored rt be c t ts now p = Inr p"
        using saveScore_stored_read_throws [of be rt c t ts now p]
          saveScore_stored_write_throws [of be rt c t ts now p]
          saveScore_stored_unparseable [of p rt be c t ts now] by blast
      then show ?thesis by simp
    next
      case False
      with h obtain hs where hs: "storedBoard p = Some hs" by auto
      have len: "length (spec_record 10 hs c t ts now) \<le> 10"
        by (simp add: length_spec_record)
      from False have "saveScore_stored rt be c t ts now p =
          Inr (p\<lparr>stored := Some (JSON_stringify (spec_record 10 hs c t ts now)),
                 boardEl := Board (spec_record 10 hs c t ts now)\<rparr>)"
        using saveScore_stored_works [of be p hs rt c t ts now] hs by simp
      with len ranked_spec_record [of 10 hs c t ts now] show ?thesis
        by auto
    qed
  qed
  have g: "\<not> getItemThrows be \<and> \<not> setItemThrows be \<and> storedBoard p = Some [] \<longrightarrow>
      (\<exists>p'. saveScores_stored rt be p qs = Inr p' \<and>
            storedBoard p' = Some (take 10 (js_sort compareScores (map entryOf qs))) \<and>
            (length qs = 10 + 3 \<longrightarrow> length (the (storedBoard p')) = 10))"
  proof (intro impI, elim conjE)
    assume h: "\<not> getItemThrows be" "\<not> setItemThrows be" "storedBoard p = Some []"
    from saveScores_stored_works [OF h, of rt qs]
    obtain p' where p': "saveScores_stored rt be p qs = Inr p'"
      and sb: "storedBoard p' = Some (spec_records 10 [] qs)" by blast
    have "spec_records 10 [] qs = take 10 (js_sort compareScores (map entryOf qs))"
      using spec_records_from_empty [of 10 "[]" qs] by (simp add: js_sort_def)
    with p' sb show "\<exists>p'. saveScores_stored rt be p qs = Inr p' \<and>
            storedBoard p' = Some (take 10 (js_sort compareScores (map entryOf qs))) \<and>
            (length qs = 10 + 3 \<longrightarrow> length (the (storedBoard p')) = 10)"
      by (auto simp: length_js_sort)
  qed
  from a b c d e f0 f g show ?thesis by (intro conjI)
qed

theorem leaderboard_bounded_sorted_witness:
  "length (map (\<lambda>i. (i, 5 :: int, Some (9 :: real), i)) [1, 2, 3, 4, 5, 6, 7, 8 :: int]) = 5 + 3 \<and>
   length (saveScores_list [] (map (\<lambda>i. (i, 5 :: int, Some (9 :: real), i)) [1, 2, 3, 4, 5, 6, 7, 8 :: int])) = 5 \<and>
   \<not> getItemThrows \<lparr>getItemThrows = False, setItemThrows = False\<rparr> \<and>
   \<not> setItemThrows \<lparr>getItemThrows = False, setItemThrows = False\<rparr> \<and>
   storedBoard \<lparr>stored = None, boardEl = Text []\<rparr> = Some [] \<and>
   length (map (\<lambda>i. (i, 5 :: int, None :: real option, i)) [1, 2, 3, 4, 5, 6, 7, 8, 9, 10, 11, 12, 13 :: int]) = 10 + 3 \<and>
   (\<exists>p'. saveScores_stored plainRuntime \<lparr>getItemThrows = False, setItemThrows = False\<rparr>
            \<lparr>stored = None, boardEl = Text []\<rparr>
            (map (\<lambda>i. (i, 5 :: int, None :: real option, i)) [1, 2, 3, 4, 5, 6, 7, 8, 9, 10, 11, 12, 13 :: int]) = Inr p' \<and>
         length (the (storedBoard p')) = 10)"
proof -
  let ?be = "\<lparr>getItemThrows = False, setItemThrows = False\<rparr>"
  let ?p = "\<lparr>stored = None, boardEl = Text []\<rparr>"
  let ?rs = "map (\<lambda>i. (i, 5 :: int, Some (9 :: real), i)) [1, 2, 3, 4, 5, 6, 7, 8 :: int]"
  let ?qs = "map (\<lambda>i. (i, 5 :: int, None :: real option, i)) [1, 2, 3, 4, 5, 6, 7, 8, 9, 10, 11, 12, 13 :: int]"
  note r = leaderboard_bounded_sorted [of "[]" 0 5 None 0 ?rs plainRuntime ?be ?p ?qs]
  have h1: "length ?rs = 5 + 3" by simp
  have h2: "\<not> getItemThrows ?be \<and> \<not> setItemThrows ?be \<and> storedBoard ?p = Some []"
    by (simp add: storedBoard_def)
  have h3: "length ?qs = 10 + 3" by simp
  from r have "length ?rs = 5 + 3 \<longrightarrow> length (saveScores_list [] ?rs) = 5"
    by (elim conjE)
  with h1 have c1: "length (saveScores_list [] ?rs) = 5" by (elim impE)
  from r have "\<not> getItemThrows ?be \<and> \<not> setItemThrows ?be \<and> storedBoard ?p = Some [] \<longrightarrow>
      (\<exists>p'. saveScores_stored plainRuntime ?be ?p ?qs = Inr p' \<and>
            storedBoard p' = Some (take 10 (js_sort compareScores (map entryOf ?qs))) \<and>
            (length ?qs = 10 + 3 \<longrightarrow> length (the (storedBoard p')) = 10))"
    by (elim conjE)
  with h2 h3 have c2: "\<exists>p'. saveScores_stored plainRuntime ?be ?p ?qs = Inr p' \<and> length (the (storedBoard p')) = 10"
    by blast
  from h1 c1 h2 h3 c2 show ?thesis by (intro conjI) (elim conjE; assumption)+
qed

text \<open>
  Claim C8, as the script has it. Neither \<^verbatim>\<open>loadScoresFromStorage\<close> nor \<^verbatim>\<open>saveScore\<close> of
  the second variant lets an exception out, whatever the storage holds.
  \<^verbatim>\<open>loadScoresFromStorage\<close> shows \<^verbatim>\<open>High Scores: Unavailable\<close> when reading throws, when the
  stored text does not parse, and when rendering the stored array throws, as it does on an
  element \<^verbatim>\<open>null\<close>; it shows \<^verbatim>\<open>High Scores: N/A\<close> when nothing is stored, or an empty string,
  or a value that is not an array, or an empty array; it renders every other array as it is.
  \<^verbatim>\<open>saveScore\<close> leaves the stored text and the display as they were when reading or writing
  throws, when the stored text does not parse, and when the stored array holds \<^verbatim>\<open>null\<close>;
  otherwise it leaves the page as it was or writes an array of at most ten elements; where
  nothing, an empty string, a value that is not an array or an array of entries is stored and
  the storage works, it records the new entry, starting from the empty leaderboard in the first
  three cases.
\<close>

theorem storage_failure_handling:
  "loadScoresFromStorage_stored rt be p =
     Inr (p\<lparr>boardEl :=
       (if getItemThrows be then Text ''High Scores: Unavailable''
        else case stored p of
               None \<Rightarrow> Text ''High Scores: N/A''
             | Some EmptyText \<Rightarrow> Text ''High Scores: N/A''
             | Some Unparseable \<Rightarrow> Text ''High Scores: Unavailable''
             | Some (Stringified (JArr vs)) \<Rightarrow>
                 if vs = [] then Text ''High Scores: N/A''
                 else if list_ex (rowThrows rt) vs then Text ''High Scores: Unavailable''
                 else (case decodeEntries vs of Some es \<Rightarrow> Board es | None \<Rightarrow> Rows vs)
             | Some (Stringified _) \<Rightarrow> Text ''High Scores: N/A'')\<rparr>) \<and>
   (JNull \<in> set ws \<longrightarrow> list_ex (rowThrows rt) ws) \<and>
   (\<exists>p'. saveScore_stored rt be c t ts now p = Inr p' \<and>
      (p' = p \<or> (\<exists>vs. stored p' = Some (JSON_stringify_array vs) \<and> length vs \<le> 10))) \<and>
   (getItemThrows be \<or> setItemThrows be \<or> stored p = Some Unparseable \<or>
    (\<exists>vs. stored p = Some (Stringified (JArr vs)) \<and> JNull \<in> set vs) \<longrightarrow>
      saveScore_stored rt be c t ts now p = Inr p) \<and>
   (\<not> getItemThrows be \<and> \<not> setItemThrows be \<and> storedBoard p1 = Some es \<longrightarrow>
      saveScore_stored rt be c t ts now p1 =
        Inr (p1\<lparr>stored := Some (JSON_stringify (take 10 (js_sort compareScores (es @ [newEntry c t ts now])))),
               boardEl := Board (take 10 (js_sort compareScores (es @ [newEntry c t ts now])))\<rparr>))"
proof -
  note l = loadScores_total [of rt be p]
  have n: "JNull \<in> set ws \<longrightarrow> list_ex (rowThrows rt) ws"
    by (simp add: rowThrows_null)
  note s0 = saveScore_stored_total [of rt be c t ts now p]
  have s1: "getItemThrows be \<or> setItemThrows be \<or> stored p = Some Unparseable \<or>
    (\<exists>vs. stored p = Some (Stringified (JArr vs)) \<and> JNull \<in> set vs) \<longrightarrow>
      saveScore_stored rt be c t ts now p = Inr p"
    using saveScore_stored_read_throws [of be rt c t ts now p]
      saveScore_stored_write_throws [of be rt c t ts now p]
      saveScore_stored_unparseable [of p rt be c t ts now]
      saveScore_stored_null [of p _ rt be c t ts now] by blast
  have s2: "\<not> getItemThrows be \<and> \<not> setItemThrows be \<and> storedBoard p1 = Some es \<longrightarrow>
      saveScore_stored rt be c t ts now p1 =
        Inr (p1\<lparr>stored := Some (JSON_stringify (take 10 (js_sort compareScores (es @ [newEntry c t ts now])))),
               boardEl := Board (take 10 (js_sort compareScores (es @ [newEntry c t ts now])))\<rparr>)"
    by (simp add: saveScore_stored_works [of be p1 es] spec_record_def)
  from l n s0 s1 s2 show ?thesis by (intro conjI)
qed

theorem storage_failure_handling_witness:
  "JNull \<in> set [JNum 7, JNull] \<and> list_ex (rowThrows plainRuntime) [JNum 7, JNull] \<and>
   stored \<lparr>stored = Some Unparseable, boardEl = Text []\<rparr> = Some Unparseable \<and>
   saveScore_stored plainRuntime \<lparr>getItemThrows = False, setItemThrows = False\<rparr> 3 5 (Some 10) 1
     \<lparr>stored = Some Unparseable, boardEl = Text []\<rparr> =
     Inr \<lparr>stored = Some Unparseable, boardEl = Text []\<rparr> \<and>
   \<not> getItemThrows \<lparr>getItemThrows = False, setItemThrows = False\<rparr> \<and>
   \<not> setItemThrows \<lparr>getItemThrows = False, setItemThrows = False\<rparr> \<and>
   storedBoard \<lparr>stored = Some (Stringified (JBool True)), boardEl = Text []\<rparr> = Some [] \<and>
   saveScore_stored plainRuntime \<lparr>getItemThrows = False, setItemThrows = False\<rparr> 3 5 (Some 10) 1
     \<lparr>stored = Some (Stringified (JBool True)), boardEl = Text []\<rparr> =
     Inr (\<lparr>stored = Some (Stringified (JBool True)), boardEl = Text []\<rparr>
          \<lparr>stored := Some (JSON_stringify (take 10 (js_sort compareScores ([] @ [newEntry 3 5 (Some 10) 1])))),
           boardEl := Board (take 10 (js_sort compareScores ([] @ [newEntry 3 5 (Some 10) 1])))\<rparr>)"
proof -
  let ?be = "\<lparr>getItemThrows = False, setItemThrows = False\<rparr>"
  let ?p = "\<lparr>stored = Some Unparseable, boardEl = Text []\<rparr>"
  let ?p1 = "\<lparr>stored = Some (Stringified (JBool True)), boardEl = Text []\<rparr>"
  note r = storage_failure_handling [of plainRuntime ?be ?p "[JNum 7, JNull]" 3 5 "Some 10" 1 ?p1 "[]"]
  have h1: "JNull \<in> set [JNum 7, JNull]" by simp
  have h2: "stored ?p = Some Unparseable" by simp
  have h3: "\<not> getItemThrows ?be \<and> \<not> setItemThrows ?be \<and> storedBoard ?p1 = Some []"
    by (simp add: storedBoard_def)
  from r have "JNull \<in> set [JNum 7, JNull] \<longrightarrow> list_ex (rowThrows plainRuntime) [JNum 7, JNull]"
    by (elim conjE)
  with h1 have c1: "list_ex (rowThrows plainRuntime) [JNum 7, JNull]" by (elim impE)
  from r have "getItemThrows ?be \<or> setItemThrows ?be \<or> stored ?p = Some Unparseable \<or>
    (\<exists>vs. stored ?p = Some (Stringified (JArr vs)) \<and> JNull \<in> set vs) \<longrightarrow>
      saveScore_stored plainRuntime ?be 3 5 (Some 10) 1 ?p = Inr ?p"
    by (elim conjE)
  with h2 have c2: "saveScore_stored plainRuntime ?be 3 5 (Some 10) 1 ?p = Inr ?p" by blast
  from r have "\<not> getItemThrows ?be \<and> \<not> setItemThrows ?be \<and> storedBoard ?p1 = Some [] \<longrightarrow>
      saveScore_stored plainRuntime ?be 3 5 (Some 10) 1 ?p1 =
        Inr (?p1\<lparr>stored := Some (JSON_stringify (take 10 (js_sort compareScores ([] @ [newEntry 3 5 (Some 10) 1])))),
               boardEl := Board (take 10 (js_sort compareScores ([] @ [newEntry 3 5 (Some 10) 1])))\<rparr>)"
    by (elim conjE)
  with h3 have c3: "saveScore_stored plainRuntime ?be 3 5 (Some 10) 1 ?p1 =
        Inr (?p1\<lparr>stored := Some (JSON_stringify (take 10 (js_sort compareScores ([] @ [newEntry 3 5 (Some 10) 1])))),
               boardEl := Board (take 10 (js_sort compareScores ([] @ [newEntry 3 5 (Some 10) 1])))\<rparr>)"
    by (elim impE)
  from h1 c1 h2 c2 h3 c3 show ?thesis by (intro conjI) (elim conjE; assumption)+
qed

text \<open>
  The claim C8 as the specification words it does not hold. On a stored text that does not
  parse, and on the stored array \<^verbatim>\<open>[null]\<close>, the player is shown
  \<^verbatim>\<open>High Scores: Unavailable\<close>, which is not the text for "no scores yet", and
  \<^verbatim>\<open>saveScore\<close> does not fall back to an empty leaderboard: it records nothing and the
  malformed text stays.
\<close>

theorem storage_failure_counterexample:
  "loadScoresFromStorage_stored plainRuntime \<lparr>getItemThrows = False, setItemThrows = False\<rparr>
     \<lparr>stored = Some Unparseable, boardEl = Text []\<rparr> =
     Inr \<lparr>stored = Some Unparseable, boardEl = Text ''High Scores: Unavailable''\<rparr> \<and>
   Text ''High Scores: Unavailable'' \<noteq> Text ''High Scores: none yet'' \<and>
   saveScore_stored plainRuntime \<lparr>getItemThrows = False, setItemThrows = False\<rparr> 3 5 (Some 10) 1
     \<lparr>stored = Some Unparseable, boardEl = Text []\<rparr> =
     Inr \<lparr>stored = Some Unparseable, boardEl = Text []\<rparr> \<and>
   loadScoresFromStorage_stored plainRuntime \<lparr>getItemThrows = False, setItemThrows = False\<rparr>
     \<lparr>stored = Some (Stringified (JArr [JNull])), boardEl = Text []\<rparr> =
     Inr \<lparr>stored = Some (Stringified (JArr [JNull])), boardEl = Text ''High Scores: Unavailable''\<rparr> \<and>
   saveScore_stored plainRuntime \<lparr>getItemThrows = False, setItemThrows = False\<rparr> 3 5 (Some 10) 1
     \<lparr>stored = Some (Stringified (JArr [JNull])), boardEl = Text []\<rparr> =
     Inr \<lparr>stored = Some (Stringified (JArr [JNull])), boardEl = Text []\<rparr>"
  using stored_null_example
  by (simp add: loadScores_read_fails saveScore_stored_unparseable)

section \<open>The game session: what the handlers do\<close>

lemma stopTimer_fields:
  "currentIndex (snd (stopTimer now s)) = currentIndex s \<and>
   correctCount (snd (stopTimer now s)) = correctCount s \<and>
   guessingEnabled (snd (stopTimer now s)) = guessingEnabled s \<and>
   timeouts (snd (stopTimer now s)) = timeouts s"
  by (simp add: stopTimer_def Let_def)

lemma saveScore_fields:
  "currentIndex (saveScore c t ts now s) = currentIndex s \<and>
   correctCount (saveScore c t ts now s) = correctCount s \<and>
   guessingEnabled (saveScore c t ts now s) = guessingEnabled s \<and>
   timeouts (saveScore c t ts now s) = timeouts s"
  by (simp add: saveScore_def renderScoreBoard_def Let_def)

lemma endGame_fields:
  "currentIndex (endGame clk s) = currentIndex s \<and>
   correctCount (endGame clk s) = correctCount s \<and>
   \<not> guessingEnabled (endGame clk s) \<and>
   timeouts (endGame clk s) = timeouts s"
proof -
  obtain tt s2 where st: "stopTimer (perfNow clk) (s\<lparr>guessingEnabled := False, startBtn_disabled := False\<rparr>) = (tt, s2)"
    by (cases "stopTimer (perfNow clk) (s\<lparr>guessingEnabled := False, startBtn_disabled := False\<rparr>)")
  from stopTimer_fields [of "perfNow clk" "s\<lparr>guessingEnabled := False, startBtn_disabled := False\<rparr>"] st
  have "currentIndex s2 = currentIndex s \<and> correctCount s2 = correctCount s \<and>
        \<not> guessingEnabled s2 \<and> timeouts s2 = timeouts s"
    by simp
  then show ?thesis
    by (simp add: endGame_def st Let_def saveScore_fields)
qed

lemma sessionInv_endGame: "sessionInv s \<Longrightarrow> sessionInv (endGame clk s)"
  by (simp add: sessionInv_def endGame_fields)

lemma startRound_ends:
  "int (length LOCATIONS) \<le> currentIndex s \<Longrightarrow> startRound clk s = (None, endGame clk s)"
  by (simp add: startRound_def)

lemma lookup_Some: "0 \<le> i \<Longrightarrow> i < int (length xs) \<Longrightarrow> lookup xs i = Some (xs ! nat i)"
  by (simp add: lookup_def)

lemma startRound_opens:
  "0 \<le> currentIndex s \<Longrightarrow> currentIndex s < int (length LOCATIONS) \<Longrightarrow>
   startRound clk s =
     (None, s\<lparr>guessingEnabled := True,
              promptEl := Round (currentIndex s + 1) (int (length LOCATIONS))
                 (name (LOCATIONS ! nat (currentIndex s))) (grid (LOCATIONS ! nat (currentIndex s)))\<rparr>)"
  by (simp add: startRound_def lookup_Some Let_def)

lemma sessionInv_startRound:
  assumes "sessionInv s"
  shows "fst (startRound clk s) = None \<and> sessionInv (snd (startRound clk s))"
proof (cases "int (length LOCATIONS) \<le> currentIndex s")
  case True
  with assms show ?thesis by (simp add: startRound_ends sessionInv_endGame)
next
  case False
  from assms have "0 \<le> currentIndex s" by (simp add: sessionInv_def)
  with False assms show ?thesis
    by (simp add: startRound_opens sessionInv_def)
qed

lemma handleGuess_active:
  assumes "lookup LOCATIONS (currentIndex s) = Some loc"
  shows "handleGuess computeDistanceBetween guess s =
    (None,
     s\<lparr>guessingEnabled := False,
       correctCount := (if computeDistanceBetween guess (position loc) \<le> 50
                        then correctCount s + 1 else correctCount s),
       statusEl := (if computeDistanceBetween guess (position loc) \<le> 50 then ''Correct!''
                    else ''Incorrect. The correct area is highlighted in red.''),
       scoreEl := Some (if computeDistanceBetween guess (position loc) \<le> 50
                        then correctCount s + 1 else correctCount s, int (length LOCATIONS)),
       markers := markers s @ [(loc, guess, computeDistanceBetween guess (position loc) \<le> 50)],
       currentIndex := currentIndex s + 1,
       promptEl := (if currentIndex s + 1 < int (length LOCATIONS) then GetReady else promptEl s),
       timeouts := timeouts s @
         [(if currentIndex s + 1 < int (length LOCATIONS) then StartRound else EndGame, 1500)]\<rparr>)"
  using assms
  by (simp add: handleGuess_def Let_def updateScore_def showRoundMarkers_def
      CORRECT_DISTANCE_METERS_def)

subsection \<open>The invariant of the session\<close>

lemma sessionInv_lookup:
  "sessionInv s \<Longrightarrow> guessingEnabled s \<Longrightarrow>
   lookup LOCATIONS (currentIndex s) = Some (LOCATIONS ! nat (currentIndex s))"
  by (simp add: sessionInv_def lookup_Some)

lemma sessionInv_onDblClick:
  assumes "sessionInv s"
  shows "fst (onDblClick computeDistanceBetween guess s) = None \<and>
         sessionInv (snd (onDblClick computeDistanceBetween guess s))"
proof (cases "guessingEnabled s")
  case False
  with assms show ?thesis by (simp add: onDblClick_def)
next
  case True
  note lk = sessionInv_lookup [OF assms True]
  from assms True show ?thesis
    by (simp add: onDblClick_def handleGuess_active [OF lk] sessionInv_def)
qed

lemma sessionInv_startGame:
  assumes "sessionInv s"
  shows "fst (startGame t0 clk s) = None \<and> sessionInv (snd (startGame t0 clk s))"
proof -
  from assms have "sessionInv (startTimer t0 (clearRoundGraphics (updateScore (s\<lparr>currentIndex := 0, correctCount := 0\<rparr>))
          \<lparr>statusEl := [], promptEl := GameStarted, startBtn_disabled := True\<rparr>))"
    by (auto simp: sessionInv_def startTimer_def clearRoundGraphics_def updateScore_def)
  then show ?thesis
    unfolding startGame_def Let_def by (rule sessionInv_startRound)
qed

lemma sessionInv_runCallback:
  "sessionInv s \<Longrightarrow> fst (runCallback clk cb s) = None \<and> sessionInv (snd (runCallback clk cb s))"
  by (cases cb) (simp_all add: runCallback_def sessionInv_startRound sessionInv_endGame)

lemma sessionInv_timeouts_update: "sessionInv (s\<lparr>timeouts := ts\<rparr>) = sessionInv s"
  by (simp add: sessionInv_def)

lemma sessionInv_step: "sessionInv s \<Longrightarrow> sessionInv (step computeDistanceBetween ev s)"
proof (cases ev)
  case (ClickStart t0 clk)
  assume "sessionInv s"
  with ClickStart show ?thesis by (simp add: step_def sessionInv_startGame)
next
  case (DblClick guess)
  assume "sessionInv s"
  with DblClick show ?thesis by (simp add: step_def sessionInv_onDblClick)
next
  case (Timeout i clk)
  assume "sessionInv s"
  with Timeout show ?thesis
    by (simp add: step_def sessionInv_runCallback sessionInv_timeouts_update)
next
  case (Tick now)
  assume "sessionInv s"
  with Tick show ?thesis
    by (simp add: step_def updateTimerDisplay_def sessionInv_def)
qed

lemma sessionInv_run: "sessionInv s \<Longrightarrow> sessionInv (run computeDistanceBetween evs s)"
  unfolding run_def by (induction evs arbitrary: s) (simp_all add: sessionInv_step)

lemma sessionInv_freshPage: "freshPage s \<Longrightarrow> sessionInv s"
  by (simp add: freshPage_def sessionInv_def)

lemma freshPage_loadedPage: "freshPage loadedPage"
  by (simp add: freshPage_def loadedPage_def)

lemma guessingEnabled_handleGuess:
  "\<not> guessingEnabled (snd (handleGuess computeDistanceBetween guess s))"
  by (simp add: handleGuess_def Let_def updateScore_def showRoundMarkers_def
      split: option.splits)

lemma lookup_first: "lookup LOCATIONS 0 = Some (hd LOCATIONS)"
  by (simp add: lookup_def LOCATIONS_def)

lemma lookup_last: "lookup LOCATIONS 4 = Some (last LOCATIONS)"
  by (simp add: lookup_def LOCATIONS_def)

lemma length_LOCATIONS: "length LOCATIONS = 5"
  by (simp add: LOCATIONS_def)

subsection \<open>A whole game\<close>

text \<open>
  Five rounds with the distances 20, 1, 50, 51 and 0 metres (the distance function reads the
  distance off the guess), a double click during a pause, which is ignored, and the callbacks in
  between: three correct answers, ten seconds on the clock, one line on the leaderboard.
\<close>

lemma full_game_example:
  "(let s = run (\<lambda>g l. lat g)
        [ClickStart 1000 \<lparr>perfNow = 1000, dateNow = 50\<rparr>,
         DblClick \<lparr>lat = 20, lng = 0\<rparr>, Timeout 0 \<lparr>perfNow = 3000, dateNow = 52\<rparr>,
         DblClick \<lparr>lat = 70, lng = 0\<rparr>, DblClick \<lparr>lat = 1, lng = 0\<rparr>,
         Timeout 0 \<lparr>perfNow = 5000, dateNow = 54\<rparr>,
         DblClick \<lparr>lat = 50, lng = 0\<rparr>, Timeout 0 \<lparr>perfNow = 7000, dateNow = 56\<rparr>,
         DblClick \<lparr>lat = 51, lng = 0\<rparr>, Timeout 0 \<lparr>perfNow = 9000, dateNow = 58\<rparr>,
         DblClick \<lparr>lat = 0, lng = 0\<rparr>, Timeout 0 \<lparr>perfNow = 11000, dateNow = 60\<rparr>]
        loadedPage
    in currentIndex s = 5 \<and> correctCount s = 3 \<and> \<not> guessingEnabled s \<and>
       \<not> startBtn_disabled s \<and> startTime s = None \<and> timeouts s = [] \<and>
       highScores s = [newEntry 3 5 (Some 10) 60] \<and>
       highScoreEl s = Board [newEntry 3 5 (Some 10) 60] \<and> promptEl s = GameOver)"
  by (simp add: run_def step_def startGame_def startRound_def onDblClick_def handleGuess_def
      endGame_def stopTimer_def saveScore_def saveScore_list_def renderScoreBoard_def
      runCallback_def dropNth_def falsy_def js_sort_def newEntry_def
      loadedPage_def lookup_def LOCATIONS_def Let_def updateScore_def clearRoundGraphics_def
      startTimer_def showRoundMarkers_def CORRECT_DISTANCE_METERS_def)

section \<open>The claims about the game session\<close>

text \<open>
  Claim C6. From a freshly loaded page, after any sequence of clicks on the start button,
  double clicks on the map, scheduled callbacks coming due and ticks, \<open>currentIndex\<close> lies
  between zero and the number of locations, and \<open>correctCount\<close> between zero and
  \<open>currentIndex\<close>.
\<close>

theorem session_bounds:
  "freshPage s0 \<Longrightarrow>
   0 \<le> currentIndex (run computeDistanceBetween evs s0) \<and>
   currentIndex (run computeDistanceBetween evs s0) \<le> int (length LOCATIONS) \<and>
   0 \<le> correctCount (run computeDistanceBetween evs s0) \<and>
   correctCount (run computeDistanceBetween evs s0) \<le> currentIndex (run computeDistanceBetween evs s0)"
proof -
  assume "freshPage s0"
  then have "sessionInv (run computeDistanceBetween evs s0)"
    by (intro sessionInv_run sessionInv_freshPage)
  then show ?thesis by (simp add: sessionInv_def)
qed

theorem session_bounds_witness:
  "freshPage loadedPage \<and>
   0 \<le> currentIndex (run (\<lambda>g l. lat g)
          [ClickStart 100 \<lparr>perfNow = 100, dateNow = 7\<rparr>, DblClick \<lparr>lat = 20, lng = 0\<rparr>,
           Timeout 0 \<lparr>perfNow = 1700, dateNow = 8\<rparr>, DblClick \<lparr>lat = 70, lng = 0\<rparr>] loadedPage) \<and>
   currentIndex (run (\<lambda>g l. lat g)
          [ClickStart 100 \<lparr>perfNow = 100, dateNow = 7\<rparr>, DblClick \<lparr>lat = 20, lng = 0\<rparr>,
           Timeout 0 \<lparr>perfNow = 1700, dateNow = 8\<rparr>, DblClick \<lparr>lat = 70, lng = 0\<rparr>] loadedPage)
     \<le> int (length LOCATIONS) \<and>
   0 \<le> correctCount (run (\<lambda>g l. lat g)
          [ClickStart 100 \<lparr>perfNow = 100, dateNow = 7\<rparr>, DblClick \<lparr>lat = 20, lng = 0\<rparr>,
           Timeout 0 \<lparr>perfNow = 1700, dateNow = 8\<rparr>, DblClick \<lparr>lat = 70, lng = 0\<rparr>] loadedPage) \<and>
   correctCount (run (\<lambda>g l. lat g)
          [ClickStart 100 \<lparr>perfNow = 100, dateNow = 7\<rparr>, DblClick \<lparr>lat = 20, lng = 0\<rparr>,
           Timeout 0 \<lparr>perfNow = 1700, dateNow = 8\<rparr>, DblClick \<lparr>lat = 70, lng = 0\<rparr>] loadedPage)
     \<le> currentIndex (run (\<lambda>g l. lat g)
          [ClickStart 100 \<lparr>perfNow = 100, dateNow = 7\<rparr>, DblClick \<lparr>lat = 20, lng = 0\<rparr>,
           Timeout 0 \<lparr>perfNow = 1700, dateNow = 8\<rparr>, DblClick \<lparr>lat = 70, lng = 0\<rparr>] loadedPage)"
proof -
  have h: "freshPage loadedPage" by (rule freshPage_loadedPage)
  from h session_bounds [OF h, of "\<lambda>g l. lat g"
      "[ClickStart 100 \<lparr>perfNow = 100, dateNow = 7\<rparr>, DblClick \<lparr>lat = 20, lng = 0\<rparr>,
        Timeout 0 \<lparr>perfNow = 1700, dateNow = 8\<rparr>, DblClick \<lparr>lat = 70, lng = 0\<rparr>]"]
  show ?thesis by (intro conjI) (elim conjE; assumption)+
qed

text \<open>
  Claim C5. While \<open>guessingEnabled\<close> is false, a double click on the map changes nothing: the
  listener returns without an exception and leaves every variable and every text node as it was,
  whatever the distance function would answer. Guessing is disabled on a freshly loaded page,
  after \<^verbatim>\<open>handleGuess\<close> (so during the pause before the next round) and after
  \<^verbatim>\<open>endGame\<close>; a second double click right after a first one is therefore ignored.
\<close>

theorem disabled_guess_ignored:
  "(\<not> guessingEnabled s \<longrightarrow>
      onDblClick computeDistanceBetween guess s = (None, s) \<and>
      step computeDistanceBetween (DblClick guess) s = s) \<and>
   (freshPage s1 \<longrightarrow> \<not> guessingEnabled s1) \<and>
   \<not> guessingEnabled (snd (handleGuess computeDistanceBetween guess s2)) \<and>
   \<not> guessingEnabled (endGame clk s2) \<and>
   onDblClick computeDistanceBetween guess' (snd (onDblClick computeDistanceBetween guess s2)) =
     (None, snd (onDblClick computeDistanceBetween guess s2))"
proof -
  have a: "\<not> guessingEnabled s \<longrightarrow>
      onDblClick computeDistanceBetween guess s = (None, s) \<and>
      step computeDistanceBetween (DblClick guess) s = s"
    by (simp add: onDblClick_def step_def)
  have b: "freshPage s1 \<longrightarrow> \<not> guessingEnabled s1"
    by (simp add: freshPage_def)
  have c: "\<not> guessingEnabled (snd (handleGuess computeDistanceBetween guess s2))"
    by (rule guessingEnabled_handleGuess)
  have d: "\<not> guessingEnabled (endGame clk s2)"
    by (simp add: endGame_fields)
  have "\<not> guessingEnabled (snd (onDblClick computeDistanceBetween guess s2))"
    by (simp add: onDblClick_def guessingEnabled_handleGuess)
  then have e: "onDblClick computeDistanceBetween guess' (snd (onDblClick computeDistanceBetween guess s2)) =
     (None, snd (onDblClick computeDistanceBetween guess s2))"
    by (simp add: onDblClick_def [of _ guess'])
  from a b c d e show ?thesis by (intro conjI)
qed

theorem disabled_guess_ignored_witness:
  "\<not> guessingEnabled loadedPage \<and> freshPage loadedPage \<and>
   onDblClick (\<lambda>g l. 0) \<lparr>lat = 34.2408534, lng = - 118.5266263\<rparr> loadedPage = (None, loadedPage) \<and>
   step (\<lambda>g l. 0) (DblClick \<lparr>lat = 34.2408534, lng = - 118.5266263\<rparr>) loadedPage = loadedPage"
proof -
  have h1: "\<not> guessingEnabled loadedPage" by (simp add: loadedPage_def)
  have h2: "freshPage loadedPage" by (rule freshPage_loadedPage)
  note r = disabled_guess_ignored [of loadedPage "\<lambda>g l. 0"
      "\<lparr>lat = 34.2408534, lng = - 118.5266263\<rparr>" loadedPage loadedPage
      "\<lparr>perfNow = 0, dateNow = 0\<rparr>" "\<lparr>lat = 0, lng = 0\<rparr>"]
  from r have "\<not> guessingEnabled loadedPage \<longrightarrow>
      onDblClick (\<lambda>g l. 0) \<lparr>lat = 34.2408534, lng = - 118.5266263\<rparr> loadedPage = (None, loadedPage) \<and>
      step (\<lambda>g l. 0) (DblClick \<lparr>lat = 34.2408534, lng = - 118.5266263\<rparr>) loadedPage = loadedPage"
    by (elim conjE)
  with h1 have "onDblClick (\<lambda>g l. 0) \<lparr>lat = 34.2408534, lng = - 118.5266263\<rparr> loadedPage = (None, loadedPage) \<and>
      step (\<lambda>g l. 0) (DblClick \<lparr>lat = 34.2408534, lng = - 118.5266263\<rparr>) loadedPage = loadedPage"
    by (elim impE)
  with h1 h2 show ?thesis by (intro conjI) (elim conjE; assumption)+
qed

text \<open>
  Claim C2. In an active round (guessing enabled, \<open>currentIndex\<close> at a location of the
  catalogue) a double click is judged without an exception, and it is judged correct, with
  \<open>correctCount\<close> raised by one and the status \<^verbatim>\<open>Correct!\<close>, exactly when the distance from
  the guess to the position of the current location is at most \<open>CORRECT_DISTANCE_METERS\<close>,
  which is 50: at a distance of exactly 50 the count goes up by one, at 50.0001 it stays.
\<close>

theorem guess_threshold:
  assumes "guessingEnabled s" and "lookup LOCATIONS (currentIndex s) = Some loc"
  shows "CORRECT_DISTANCE_METERS = 50 \<and>
     fst (onDblClick computeDistanceBetween guess s) = None \<and>
     (correctCount (snd (onDblClick computeDistanceBetween guess s)) = correctCount s + 1
        \<longleftrightarrow> computeDistanceBetween guess (position loc) \<le> 50) \<and>
     (correctCount (snd (onDblClick computeDistanceBetween guess s)) = correctCount s
        \<longleftrightarrow> 50 < computeDistanceBetween guess (position loc)) \<and>
     (statusEl (snd (onDblClick computeDistanceBetween guess s)) = ''Correct!''
        \<longleftrightarrow> computeDistanceBetween guess (position loc) \<le> 50) \<and>
     correctCount (snd (onDblClick (\<lambda>a b. 50) guess s)) = correctCount s + 1 \<and>
     correctCount (snd (onDblClick (\<lambda>a b. 50.0001) guess s)) = correctCount s"
  using assms(1)
  by (simp add: onDblClick_def handleGuess_active [OF assms(2)] CORRECT_DISTANCE_METERS_def
      not_le)

theorem guess_threshold_witness:
  "guessingEnabled (loadedPage\<lparr>guessingEnabled := True\<rparr>) \<and>
   lookup LOCATIONS (currentIndex (loadedPage\<lparr>guessingEnabled := True\<rparr>)) = Some (hd LOCATIONS) \<and>
   correctCount (snd (onDblClick (\<lambda>a b. 50) \<lparr>lat = 34.2412, lng = - 118.5266\<rparr>
       (loadedPage\<lparr>guessingEnabled := True\<rparr>))) =
     correctCount (loadedPage\<lparr>guessingEnabled := True\<rparr>) + 1 \<and>
   correctCount (snd (onDblClick (\<lambda>a b. 50.0001) \<lparr>lat = 34.2412, lng = - 118.5266\<rparr>
       (loadedPage\<lparr>guessingEnabled := True\<rparr>))) =
     correctCount (loadedPage\<lparr>guessingEnabled := True\<rparr>)"
proof -
  have h1: "guessingEnabled (loadedPage\<lparr>guessingEnabled := True\<rparr>)" by simp
  have h2: "lookup LOCATIONS (currentIndex (loadedPage\<lparr>guessingEnabled := True\<rparr>)) = Some (hd LOCATIONS)"
    by (simp add: loadedPage_def lookup_first)
  from h1 h2 guess_threshold [OF h1 h2, of "\<lambda>a b. 50" "\<lparr>lat = 34.2412, lng = - 118.5266\<rparr>"]
  show ?thesis by (intro conjI) (elim conjE; assumption)+
qed

text \<open>
  \<^verbatim>\<open>stopTimer\<close> with no start time recorded, as on a freshly loaded page, returns
  \<^verbatim>\<open>null\<close> and changes nothing; after \<^verbatim>\<open>startTimer\<close> at a clock reading \<open>t0\<close> other than
  zero it returns the seconds from \<open>t0\<close> to the reading at the stop, clears the interval and
  forgets the start time, so that a second \<^verbatim>\<open>stopTimer\<close> returns \<^verbatim>\<open>null\<close> again.
\<close>

lemma stopTimer_started:
  "(startTime s = None \<longrightarrow> stopTimer now s = (None, s)) \<and>
   (freshPage s \<longrightarrow> startTime s = None) \<and>
   (t0 \<noteq> 0 \<longrightarrow>
      stopTimer now (startTimer t0 s1) =
        (Some ((now - t0) / 1000),
         s1\<lparr>startTime := None, timerInterval := False, timerEl := Some ((now - t0) / 1000)\<rparr>)) \<and>
   (startTime s2 = Some t0 \<and> t0 \<noteq> 0 \<longrightarrow>
      fst (stopTimer now s2) = Some ((now - t0) / 1000) \<and>
      \<not> timerInterval (snd (stopTimer now s2)) \<and>
      startTime (snd (stopTimer now s2)) = None) \<and>
   fst (stopTimer now' (snd (stopTimer now s3))) = None"
  by (auto simp: stopTimer_def startTimer_def falsy_def freshPage_def Let_def)


text \<open>
  Claim C4, as the script has it. \<^verbatim>\<open>handleGuess\<close> itself decides how a round ends: it schedules
  \<^verbatim>\<open>startRound\<close> while another location is left and \<^verbatim>\<open>endGame\<close> after the last one, both 1500
  milliseconds later. The callback it schedules does in every round what \<^verbatim>\<open>startRound\<close> would
  do in its place, since \<^verbatim>\<open>startRound\<close> calls \<^verbatim>\<open>endGame\<close> once \<open>currentIndex\<close> has reached the
  number of locations.
\<close>

theorem last_round_advance:
  assumes "guessingEnabled s" and "lookup LOCATIONS (currentIndex s) = Some loc"
  shows "timeouts (snd (onDblClick computeDistanceBetween guess s)) =
       timeouts s @
         [(if currentIndex s + 1 < int (length LOCATIONS) then StartRound else EndGame, 1500)] \<and>
     runCallback clk (fst (last (timeouts (snd (onDblClick computeDistanceBetween guess s)))))
         ((snd (onDblClick computeDistanceBetween guess s))\<lparr>timeouts := timeouts s\<rparr>) =
       startRound clk ((snd (onDblClick computeDistanceBetween guess s))\<lparr>timeouts := timeouts s\<rparr>) \<and>
     (\<not> currentIndex s + 1 < int (length LOCATIONS) \<longrightarrow>
        startRound clk ((snd (onDblClick computeDistanceBetween guess s))\<lparr>timeouts := timeouts s\<rparr>) =
          (None, endGame clk ((snd (onDblClick computeDistanceBetween guess s))\<lparr>timeouts := timeouts s\<rparr>)))"
proof -
  let ?s' = "snd (onDblClick computeDistanceBetween guess s)"
  have hg: "onDblClick computeDistanceBetween guess s = handleGuess computeDistanceBetween guess s"
    using assms(1) by (simp add: onDblClick_def)
  have idx: "currentIndex (?s'\<lparr>timeouts := timeouts s\<rparr>) = currentIndex s + 1"
    by (simp add: hg handleGuess_active [OF assms(2)])
  have a: "timeouts ?s' = timeouts s @
         [(if currentIndex s + 1 < int (length LOCATIONS) then StartRound else EndGame, 1500)]"
    by (simp add: hg handleGuess_active [OF assms(2)])
  have c: "\<not> currentIndex s + 1 < int (length LOCATIONS) \<longrightarrow>
        startRound clk (?s'\<lparr>timeouts := timeouts s\<rparr>) = (None, endGame clk (?s'\<lparr>timeouts := timeouts s\<rparr>))"
    using idx by (simp add: startRound_ends)
  have b: "runCallback clk (fst (last (timeouts ?s'))) (?s'\<lparr>timeouts := timeouts s\<rparr>) =
       startRound clk (?s'\<lparr>timeouts := timeouts s\<rparr>)"
  proof (cases "currentIndex s + 1 < int (length LOCATIONS)")
    case True
    then show ?thesis by (simp add: a runCallback_def)
  next
    case False
    with c show ?thesis by (simp add: a runCallback_def)
  qed
  from a b c show ?thesis by (intro conjI)
qed

theorem last_round_advance_witness:
  "guessingEnabled (loadedPage\<lparr>currentIndex := 4, guessingEnabled := True\<rparr>) \<and>
   lookup LOCATIONS (currentIndex (loadedPage\<lparr>currentIndex := 4, guessingEnabled := True\<rparr>)) =
     Some (last LOCATIONS) \<and>
   \<not> currentIndex (loadedPage\<lparr>currentIndex := 4, guessingEnabled := True\<rparr>) + 1 < int (length LOCATIONS) \<and>
   timeouts (snd (onDblClick (\<lambda>a b. 10) \<lparr>lat = 34.2405, lng = - 118.5282\<rparr>
       (loadedPage\<lparr>currentIndex := 4, guessingEnabled := True\<rparr>))) = [(EndGame, 1500)] \<and>
   startRound \<lparr>perfNow = 9000, dateNow = 1\<rparr>
      ((snd (onDblClick (\<lambda>a b. 10) \<lparr>lat = 34.2405, lng = - 118.5282\<rparr>
          (loadedPage\<lparr>currentIndex := 4, guessingEnabled := True\<rparr>)))
        \<lparr>timeouts := timeouts (loadedPage\<lparr>currentIndex := 4, guessingEnabled := True\<rparr>)\<rparr>) =
     (None, endGame \<lparr>perfNow = 9000, dateNow = 1\<rparr>
      ((snd (onDblClick (\<lambda>a b. 10) \<lparr>lat = 34.2405, lng = - 118.5282\<rparr>
          (loadedPage\<lparr>currentIndex := 4, guessingEnabled := True\<rparr>)))
        \<lparr>timeouts := timeouts (loadedPage\<lparr>currentIndex := 4, guessingEnabled := True\<rparr>)\<rparr>))"
proof -
  let ?s = "loadedPage\<lparr>currentIndex := 4, guessingEnabled := True\<rparr>"
  let ?g = "\<lparr>lat = 34.2405, lng = - 118.5282\<rparr>"
  let ?clk = "\<lparr>perfNow = 9000, dateNow = 1\<rparr>"
  let ?s' = "snd (onDblClick (\<lambda>a b. 10) ?g ?s)"
  have h1: "guessingEnabled ?s" by simp
  have h2: "lookup LOCATIONS (currentIndex ?s) = Some (last LOCATIONS)"
    by (simp add: lookup_last)
  have h3: "\<not> currentIndex ?s + 1 < int (length LOCATIONS)"
    by (simp add: length_LOCATIONS)
  have h4: "timeouts ?s = []" by (simp add: loadedPage_def)
  note r = last_round_advance [OF h1 h2, of "\<lambda>a b. 10" ?g ?clk]
  from r h3 h4 have c1: "timeouts ?s' = [(EndGame, 1500)]"
    by simp
  from r have "\<not> currentIndex ?s + 1 < int (length LOCATIONS) \<longrightarrow>
      startRound ?clk (?s'\<lparr>timeouts := timeouts ?s\<rparr>) = (None, endGame ?clk (?s'\<lparr>timeouts := timeouts ?s\<rparr>))"
    by (elim conjE)
  with h3 have c2: "startRound ?clk (?s'\<lparr>timeouts := timeouts ?s\<rparr>) =
      (None, endGame ?clk (?s'\<lparr>timeouts := timeouts ?s\<rparr>))"
    by (elim impE)
  from h1 h2 h3 c1 c2 show ?thesis by (intro conjI)
qed

text \<open>
  The claim C4 as the specification words it does not hold: the last round does not end through
  the callback of the rounds before it. After the guess for the fifth location the guess handler
  schedules \<^verbatim>\<open>endGame\<close>, after the guess for the fourth it schedules \<^verbatim>\<open>startRound\<close>.
\<close>

theorem last_round_special_case_counterexample:
  "timeouts (snd (handleGuess (\<lambda>a b. 10) \<lparr>lat = 34.2405, lng = - 118.5282\<rparr>
       (loadedPage\<lparr>currentIndex := 4, guessingEnabled := True\<rparr>))) = [(EndGame, 1500)] \<and>
   timeouts (snd (handleGuess (\<lambda>a b. 10) \<lparr>lat = 34.2405, lng = - 118.5282\<rparr>
       (loadedPage\<lparr>currentIndex := 3, guessingEnabled := True\<rparr>))) = [(StartRound, 1500)] \<and>
   (EndGame, 1500 :: nat) \<noteq> (StartRound, 1500)"
  by (simp add: handleGuess_def lookup_def LOCATIONS_def loadedPage_def Let_def updateScore_def
      showRoundMarkers_def CORRECT_DISTANCE_METERS_def)

end
